theory Spec2Isabelle
  imports Complex_Main "HOL-Library.AList"
begin

section \<open>The platform: audio graph, parameter automation, timers\<close>

text \<open>
  AudioMark (src/audio.js) is a class over the Web Audio graph. The embedding keeps the
  fields of the class as a record, and next to them the part of the platform the class
  talks to: the nodes it has created (a store from node ids to nodes), the timers it has
  set and the notifications it has raised. Times and gains are exact reals. A volume
  handed to \<open>setVolume\<close> is any JavaScript number: a finite value, an infinity or NaN.
  The only place where the source can produce a NaN from finite values, a remainder by
  zero, is an explicit \<open>None\<close>.
\<close>

type_synonym node_id = int

datatype js_error = TypeError

datatype js_number = Num real | PosInf | NegInf | NaN

datatype 'a outcome = Threw js_error | Returned 'a

text \<open>The platform calls the source wraps in a \<open>try\<close> block; a call in the set given to
  an operation raises there, and the operation's \<open>catch\<close> handles it.\<close>

datatype platform_call =
    NewAudioContext | ResumeContext | CreateBufferSource | CreateGain | Connect
  | Disconnect | SetValueAtTime | LinearRampToValueAtTime | Start

datatype param_event = SetValue real real | LinearRamp real real

datatype dest = ToNode node_id | ToDestination

datatype category = Sfx | Music

datatype handler = PlayEnded category | ResumeEnded

datatype alert =
    InitFailed | LoadNotInitialized | LoadFailed string | NotInitialized
  | NotLoaded string | PlayFailed string | FadeOutError | TrackNotLoaded string

record audio_buffer =
  buf_duration :: real

record source_node =
  sn_buffer :: audio_buffer
  sn_loop :: bool
  sn_out :: "node_id list"
  sn_offset :: "real option"
  sn_stopped :: bool
  sn_onended :: "handler option"

record gain_node =
  gn_events :: "param_event list"
  gn_out :: "dest list"

record audio_context =
  currentTime :: real
  ctx_state :: string

record music_slot =
  cm_source :: node_id
  cm_name :: string
  cm_startTime :: real
  cm_loop :: bool

record play_options =
  opt_loop :: "bool option"
  opt_volume :: "real option"
  opt_fadeIn :: "real option"
  opt_stopCurrent :: "bool option"

record audio_opts =
  ao_loop :: bool
  ao_volume :: real
  ao_fadeIn :: real
  ao_type :: category

record audiomark =
  audioContext :: "audio_context option"
  masterGain :: "node_id option"
  musicGain :: "node_id option"
  sfxGain :: "node_id option"
  vol_master :: js_number
  vol_music :: js_number
  vol_sfx :: js_number
  vol_other :: "string \<rightharpoonup> js_number"
  audioBuffers :: "(string \<times> audio_buffer) list"
  activeSources :: "node_id set"
  activeMusicSources :: "node_id set"
  currentMusic :: "music_slot option"
  isMusicPaused :: bool
  musicStartTime :: real
  musicPauseTime :: real
  isInitialized :: bool
  sources :: "node_id \<rightharpoonup> source_node"
  gains :: "node_id \<rightharpoonup> gain_node"
  next_id :: node_id
  timers :: "(real \<times> node_id) list"
  alerts :: "alert list"

record snapshot =
  st_isInitialized :: bool
  st_audioContextState :: string
  st_loadedAudio :: "string list"
  st_activeSources :: nat
  st_activeMusicSources :: nat
  st_currentMusic :: "string option"
  st_isMusicPaused :: bool
  st_volumes :: "js_number \<times> js_number \<times> js_number"
  st_volumes_other :: "string \<rightharpoonup> js_number"

subsection \<open>Platform primitives\<close>

definition alert_user :: "alert \<Rightarrow> audiomark \<Rightarrow> audiomark" where
  "alert_user a s = s\<lparr>alerts := alerts s @ [a]\<rparr>"

definition new_source :: "audio_buffer \<Rightarrow> bool \<Rightarrow> audiomark \<Rightarrow> audiomark" where
  "new_source buf lp s =
     s\<lparr>sources := (sources s)(next_id s \<mapsto>
           \<lparr>sn_buffer = buf, sn_loop = lp, sn_out = [], sn_offset = None,
            sn_stopped = False, sn_onended = None\<rparr>),
       next_id := next_id s + 1\<rparr>"

definition new_gain :: "audiomark \<Rightarrow> audiomark" where
  "new_gain s =
     s\<lparr>gains := (gains s)(next_id s \<mapsto> \<lparr>gn_events = [], gn_out = []\<rparr>),
       next_id := next_id s + 1\<rparr>"

definition upd_source :: "node_id \<Rightarrow> (source_node \<Rightarrow> source_node) \<Rightarrow> audiomark \<Rightarrow> audiomark" where
  "upd_source n f s =
     s\<lparr>sources := (case sources s n of None \<Rightarrow> sources s | Some x \<Rightarrow> (sources s)(n \<mapsto> f x))\<rparr>"

definition upd_gain :: "node_id \<Rightarrow> (gain_node \<Rightarrow> gain_node) \<Rightarrow> audiomark \<Rightarrow> audiomark" where
  "upd_gain n f s =
     s\<lparr>gains := (case gains s n of None \<Rightarrow> gains s | Some x \<Rightarrow> (gains s)(n \<mapsto> f x))\<rparr>"

definition connect_source :: "node_id \<Rightarrow> node_id \<Rightarrow> audiomark \<Rightarrow> audiomark" where
  "connect_source src g s = upd_source src (\<lambda>x. x\<lparr>sn_out := sn_out x @ [g]\<rparr>) s"

definition disconnect_source :: "node_id \<Rightarrow> audiomark \<Rightarrow> audiomark" where
  "disconnect_source src s = upd_source src (\<lambda>x. x\<lparr>sn_out := []\<rparr>) s"

definition connect_gain :: "node_id \<Rightarrow> dest \<Rightarrow> audiomark \<Rightarrow> audiomark" where
  "connect_gain g d s = upd_gain g (\<lambda>x. x\<lparr>gn_out := gn_out x @ [d]\<rparr>) s"

definition schedule :: "node_id \<Rightarrow> param_event \<Rightarrow> audiomark \<Rightarrow> audiomark" where
  "schedule g ev s = upd_gain g (\<lambda>x. x\<lparr>gn_events := gn_events x @ [ev]\<rparr>) s"

text \<open>\<open>stop()\<close> on a source that was never started raises on the platform; every caller
  in the source swallows that, so the node is simply left as it is.\<close>

definition stop_node :: "source_node \<Rightarrow> source_node" where
  "stop_node x = (if sn_offset x = None then x else x\<lparr>sn_stopped := True\<rparr>)"

definition stop_each :: "node_id set \<Rightarrow> (node_id \<rightharpoonup> source_node) \<Rightarrow> (node_id \<rightharpoonup> source_node)" where
  "stop_each A m = (\<lambda>i. if i \<in> A then map_option stop_node (m i) else m i)"

text \<open>The value of a gain parameter at time \<open>t\<close>, from the events scheduled on it in the
  order of their times: a set event holds its value from its time on, a linear ramp
  interpolates between the previous event and its own end point. The pair carried along
  is the value and time of the previous event; a gain parameter starts at 1.\<close>

fun automate :: "real \<times> real \<Rightarrow> param_event list \<Rightarrow> real \<Rightarrow> real" where
  "automate (v0, t0) [] t = v0"
| "automate (v0, t0) (SetValue v T # es) t =
     (if t < T then v0 else automate (v, T) es t)"
| "automate (v0, t0) (LinearRamp v T # es) t =
     (if t < T then (if t \<le> t0 then v0 else v0 + (v - v0) * ((t - t0) / (T - t0)))
      else automate (v, T) es t)"

definition gain_at :: "gain_node \<Rightarrow> real \<Rightarrow> real" where
  "gain_at g t = automate (1, 0) (gn_events g) t"

text \<open>The gain a signal picks up on its way from a node to the output: the product of
  the gains of the stages it passes. Every gain stage this program builds has one output;
  the fuel bounds the length of the chain.\<close>

fun chain_gain :: "nat \<Rightarrow> (node_id \<rightharpoonup> gain_node) \<Rightarrow> real \<Rightarrow> dest \<Rightarrow> real option" where
  "chain_gain k gs t ToDestination = Some 1"
| "chain_gain 0 gs t (ToNode n) = None"
| "chain_gain (Suc k) gs t (ToNode n) =
     (case gs n of
        None \<Rightarrow> None
      | Some g \<Rightarrow>
          (case gn_out g of
             [d] \<Rightarrow> map_option (\<lambda>r. gain_at g t * r) (chain_gain k gs t d)
           | _ \<Rightarrow> None))"

definition source_path_gain :: "audiomark \<Rightarrow> node_id \<Rightarrow> real \<Rightarrow> real option" where
  "source_path_gain s src t =
     (case sources s src of
        None \<Rightarrow> None
      | Some x \<Rightarrow> (case sn_out x of [g] \<Rightarrow> chain_gain (Suc (Suc (Suc 0))) (gains s) t (ToNode g) | _ \<Rightarrow> None))"

definition bus_path_gain :: "audiomark \<Rightarrow> node_id option \<Rightarrow> real option" where
  "bus_path_gain s bus =
     (case (bus, audioContext s) of
        (Some b, Some ctx) \<Rightarrow> chain_gain (Suc (Suc 0)) (gains s) (currentTime ctx) (ToNode b)
      | _ \<Rightarrow> None)"

text \<open>JavaScript's \<open>%\<close> on numbers: the remainder of the division truncated towards
  zero, with the sign of the dividend; by zero it is NaN.\<close>

definition js_trunc :: "real \<Rightarrow> int" where
  "js_trunc x = (if 0 \<le> x then \<lfloor>x\<rfloor> else \<lceil>x\<rceil>)"

definition js_rem :: "real \<Rightarrow> real \<Rightarrow> real option" where
  "js_rem a b = (if b = 0 then None else Some (a - b * of_int (js_trunc (a / b))))"

text \<open>\<open>Math.min\<close> and \<open>Math.max\<close> of two numbers: NaN as soon as one argument is
  NaN, otherwise the smaller or larger one, the infinities at the two ends.\<close>

fun js_min :: "js_number \<Rightarrow> js_number \<Rightarrow> js_number" where
  "js_min NaN y = NaN"
| "js_min x NaN = NaN"
| "js_min NegInf y = NegInf"
| "js_min x NegInf = NegInf"
| "js_min PosInf y = y"
| "js_min x PosInf = x"
| "js_min (Num a) (Num b) = Num (min a b)"

fun js_max :: "js_number \<Rightarrow> js_number \<Rightarrow> js_number" where
  "js_max NaN y = NaN"
| "js_max x NaN = NaN"
| "js_max PosInf y = PosInf"
| "js_max x PosInf = PosInf"
| "js_max NegInf y = y"
| "js_max x NegInf = x"
| "js_max (Num a) (Num b) = Num (max a b)"

text \<open>Division of a number by a positive finite constant, and the product of two
  numbers (an infinity times zero is NaN).\<close>

fun js_div_pos :: "js_number \<Rightarrow> real \<Rightarrow> js_number" where
  "js_div_pos (Num a) c = Num (a / c)"
| "js_div_pos PosInf c = PosInf"
| "js_div_pos NegInf c = NegInf"
| "js_div_pos NaN c = NaN"

definition js_sign_inf :: "real \<Rightarrow> bool \<Rightarrow> js_number" where
  "js_sign_inf a positive =
     (if a = 0 then NaN else if (0 < a) = positive then PosInf else NegInf)"

fun js_times :: "js_number \<Rightarrow> js_number \<Rightarrow> js_number" where
  "js_times NaN y = NaN"
| "js_times x NaN = NaN"
| "js_times (Num a) (Num b) = Num (a * b)"
| "js_times (Num a) PosInf = js_sign_inf a True"
| "js_times (Num a) NegInf = js_sign_inf a False"
| "js_times PosInf (Num b) = js_sign_inf b True"
| "js_times NegInf (Num b) = js_sign_inf b False"
| "js_times PosInf PosInf = PosInf"
| "js_times NegInf NegInf = PosInf"
| "js_times PosInf NegInf = NegInf"
| "js_times NegInf PosInf = NegInf"

text \<open>The host clock moves between calls.\<close>

definition advance :: "real \<Rightarrow> audiomark \<Rightarrow> audiomark" where
  "advance dt s =
     s\<lparr>audioContext := map_option (\<lambda>c. c\<lparr>currentTime := currentTime c + dt\<rparr>) (audioContext s)\<rparr>"

section \<open>The class AudioMark\<close>

subsection \<open>Construction, initialisation, the buffer registry\<close>

definition constructor :: audiomark where
  "constructor =
     \<lparr>audioContext = None, masterGain = None, musicGain = None, sfxGain = None,
      vol_master = Num 100, vol_music = Num 100, vol_sfx = Num 100, vol_other = Map.empty,
      audioBuffers = [], activeSources = {}, activeMusicSources = {},
      currentMusic = None, isMusicPaused = False, musicStartTime = 0, musicPauseTime = 0,
      isInitialized = False,
      sources = Map.empty, gains = Map.empty, next_id = 0, timers = [], alerts = []\<rparr>"

text \<open>\<open>bus.gain.setValueAtTime(v, this.audioContext.currentTime)\<close> on one of the three
  bus handles: a null handle or context raises TypeError, and so does the platform for a
  value that is not finite.\<close>

definition set_bus_gain :: "node_id option \<Rightarrow> js_number \<Rightarrow> audiomark \<Rightarrow> unit outcome \<times> audiomark" where
  "set_bus_gain bus v s =
     (case bus of
        None \<Rightarrow> (Threw TypeError, s)
      | Some g \<Rightarrow>
          (case audioContext s of
             None \<Rightarrow> (Threw TypeError, s)
           | Some ctx \<Rightarrow>
               (case v of
                  Num x \<Rightarrow> (Returned (), schedule g (SetValue x (currentTime ctx)) s)
                | _ \<Rightarrow> (Threw TypeError, s))))"

definition updateVolumes :: "audiomark \<Rightarrow> unit outcome \<times> audiomark" where
  "updateVolumes s =
     (if \<not> isInitialized s then (Returned (), s)
      else
        let masterVol = js_div_pos (vol_master s) 100;
            musicVol = js_times (js_div_pos (vol_music s) 100) masterVol;
            sfxVol = js_times (js_div_pos (vol_sfx s) 100) masterVol
        in (case set_bus_gain (masterGain s) masterVol s of
              (Threw e, s1) \<Rightarrow> (Threw e, s1)
            | (Returned _, s1) \<Rightarrow>
                (case set_bus_gain (musicGain s1) musicVol s1 of
                   (Threw e, s2) \<Rightarrow> (Threw e, s2)
                 | (Returned _, s2) \<Rightarrow> set_bus_gain (sfxGain s2) sfxVol s2)))"

text \<open>The body of the \<open>try\<close> block of \<open>initialize\<close>: \<open>Inl\<close> is the state at which a
  platform call raised. The platform decides whether the new context starts suspended.\<close>

definition initialize_try :: "platform_call set \<Rightarrow> bool \<Rightarrow> audiomark \<Rightarrow> audiomark + audiomark" where
  "initialize_try th suspended s =
     (if NewAudioContext \<in> th then Inl s
      else
        let s1 = s\<lparr>audioContext :=
                     Some \<lparr>currentTime = 0,
                           ctx_state = (if suspended then ''suspended'' else ''running'')\<rparr>\<rparr>
        in if suspended \<and> ResumeContext \<in> th then Inl s1
      else
        let s2 = s1\<lparr>audioContext := Some \<lparr>currentTime = 0, ctx_state = ''running''\<rparr>\<rparr>
        in if CreateGain \<in> th then Inl s2
      else
        let m = next_id s2; s3 = (new_gain s2)\<lparr>masterGain := Some m\<rparr>;
            mu = next_id s3; s4 = (new_gain s3)\<lparr>musicGain := Some mu\<rparr>;
            sf = next_id s4; s5 = (new_gain s4)\<lparr>sfxGain := Some sf\<rparr>
        in if Connect \<in> th then Inl s5
      else
        let s6 = connect_gain mu (ToNode m) s5;
            s7 = connect_gain sf (ToNode m) s6;
            s8 = connect_gain m ToDestination s7
        in (case updateVolumes s8 of
              (Threw e, s9) \<Rightarrow> Inl s9
            | (Returned _, s9) \<Rightarrow> Inr (s9\<lparr>isInitialized := True\<rparr>)))"

definition initialize :: "platform_call set \<Rightarrow> bool \<Rightarrow> audiomark \<Rightarrow> bool \<times> audiomark" where
  "initialize th suspended s =
     (case initialize_try th suspended s of
        Inl s' \<Rightarrow> (False, alert_user InitFailed s')
      | Inr s' \<Rightarrow> (True, s'))"

text \<open>\<open>loadAudio\<close> fetches and decodes; what the platform hands back is the decoded
  buffer, or nothing when fetching or decoding fails.\<close>

definition loadAudio :: "string \<Rightarrow> audio_buffer option \<Rightarrow> audiomark \<Rightarrow> bool \<times> audiomark" where
  "loadAudio name decoded s =
     (if \<not> isInitialized s then (False, alert_user LoadNotInitialized s)
      else
        (case (audioContext s, decoded) of
           (Some ctx, Some audioBuffer) \<Rightarrow>
             (True, s\<lparr>audioBuffers := AList.update name audioBuffer (audioBuffers s)\<rparr>)
         | _ \<Rightarrow> (False, alert_user (LoadFailed name) s)))"

definition unloadAudio :: "string \<Rightarrow> audiomark \<Rightarrow> bool \<times> audiomark" where
  "unloadAudio name s =
     (if name \<in> fst ` set (audioBuffers s)
      then (True, s\<lparr>audioBuffers := AList.delete name (audioBuffers s)\<rparr>)
      else (False, s))"

subsection \<open>Playback\<close>

text \<open>The \<open>try\<close> block of \<open>_playAudio\<close>, statement by statement.\<close>

definition playAudio_try ::
  "platform_call set \<Rightarrow> audio_buffer \<Rightarrow> node_id option \<Rightarrow> audio_opts \<Rightarrow> audiomark
     \<Rightarrow> audiomark + (node_id \<times> audiomark)" where
  "playAudio_try th audioBuffer gainNode options s =
     (case audioContext s of
        None \<Rightarrow> Inl s
      | Some ctx \<Rightarrow>
     if CreateBufferSource \<in> th then Inl s
     else
       let source = next_id s; s1 = new_source audioBuffer (ao_loop options) s
       in if CreateGain \<in> th then Inl s1
     else
       let sourceGain = next_id s1; s2 = new_gain s1
       in if Connect \<in> th then Inl s2
     else
       let s3 = connect_source source sourceGain s2
       in (case gainNode of
             None \<Rightarrow> Inl s3
           | Some bus \<Rightarrow>
       let s4 = connect_gain sourceGain (ToNode bus) s3
       in if SetValueAtTime \<in> th then Inl s4
     else
       let s5 = schedule sourceGain (SetValue (ao_volume options) (currentTime ctx)) s4
       in if 0 < ao_fadeIn options \<and> LinearRampToValueAtTime \<in> th
          then Inl (schedule sourceGain (SetValue 0 (currentTime ctx)) s5)
     else
       let s6 = (if 0 < ao_fadeIn options
                 then schedule sourceGain
                        (LinearRamp (ao_volume options) (currentTime ctx + ao_fadeIn options))
                        (schedule sourceGain (SetValue 0 (currentTime ctx)) s5)
                 else s5);
           s7 = s6\<lparr>activeSources := insert source (activeSources s6)\<rparr>;
           s8 = upd_source source (\<lambda>x. x\<lparr>sn_onended := Some (PlayEnded (ao_type options))\<rparr>) s7
       in if Start \<in> th then Inl s8
     else Inr (source, upd_source source (\<lambda>x. x\<lparr>sn_offset := Some 0\<rparr>) s8)))"

text \<open>\<open>_playAudio\<close> of the source.\<close>

definition playAudio ::
  "platform_call set \<Rightarrow> string \<Rightarrow> node_id option \<Rightarrow> audio_opts \<Rightarrow> audiomark
     \<Rightarrow> node_id option \<times> audiomark" where
  "playAudio th name gainNode options s =
     (if \<not> isInitialized s then (None, alert_user NotInitialized s)
      else
        (case map_of (audioBuffers s) name of
           None \<Rightarrow> (None, alert_user (NotLoaded name) s)
         | Some audioBuffer \<Rightarrow>
             (case playAudio_try th audioBuffer gainNode options s of
                Inl s' \<Rightarrow> (None, alert_user (PlayFailed name) s')
              | Inr (source, s') \<Rightarrow> (Some source, s'))))"

definition playSFX ::
  "platform_call set \<Rightarrow> string \<Rightarrow> play_options \<Rightarrow> audiomark \<Rightarrow> node_id option \<times> audiomark" where
  "playSFX th name options s =
     (let loop = (case opt_loop options of None \<Rightarrow> False | Some b \<Rightarrow> b);
          volume = (case opt_volume options of None \<Rightarrow> 1 | Some v \<Rightarrow> v);
          fadeIn = (case opt_fadeIn options of None \<Rightarrow> 0 | Some f \<Rightarrow> f)
      in playAudio th name (sfxGain s)
           \<lparr>ao_loop = loop, ao_volume = volume, ao_fadeIn = fadeIn, ao_type = Sfx\<rparr> s)"

definition stopMusic :: "audiomark \<Rightarrow> audiomark" where
  "stopMusic s =
     s\<lparr>sources := stop_each (activeMusicSources s) (sources s),
       activeMusicSources := {},
       currentMusic := None,
       isMusicPaused := False\<rparr>"

definition stopAll :: "audiomark \<Rightarrow> audiomark" where
  "stopAll s =
     s\<lparr>sources := stop_each (activeSources s) (sources s),
       activeSources := {},
       activeMusicSources := {},
       currentMusic := None,
       isMusicPaused := False\<rparr>"

definition playMusic ::
  "platform_call set \<Rightarrow> string \<Rightarrow> play_options \<Rightarrow> audiomark
     \<Rightarrow> node_id option outcome \<times> audiomark" where
  "playMusic th name options s =
     (let loop = (case opt_loop options of None \<Rightarrow> True | Some b \<Rightarrow> b);
          volume = (case opt_volume options of None \<Rightarrow> 1 | Some v \<Rightarrow> v);
          fadeIn = (case opt_fadeIn options of None \<Rightarrow> 0 | Some f \<Rightarrow> f);
          stopCurrent = (case opt_stopCurrent options of None \<Rightarrow> True | Some b \<Rightarrow> b);
          s1 = (if stopCurrent \<and> currentMusic s \<noteq> None then stopMusic s else s)
      in (case playAudio th name (musicGain s1)
                 \<lparr>ao_loop = loop, ao_volume = volume, ao_fadeIn = fadeIn, ao_type = Music\<rparr> s1 of
            (None, s2) \<Rightarrow> (Returned None, s2)
          | (Some source, s2) \<Rightarrow>
              (case audioContext s2 of
                 None \<Rightarrow> (Threw TypeError, s2)
               | Some ctx \<Rightarrow>
                   (Returned (Some source),
                    s2\<lparr>currentMusic :=
                         Some \<lparr>cm_source = source, cm_name = name,
                               cm_startTime = currentTime ctx, cm_loop = loop\<rparr>,
                       isMusicPaused := False,
                       activeMusicSources := insert source (activeMusicSources s2)\<rparr>))))"

text \<open>The completion callback a source carries (\<open>source.onended\<close>), run by the platform
  when the source has ended or has been stopped.\<close>

definition onended :: "node_id \<Rightarrow> audiomark \<Rightarrow> audiomark" where
  "onended source s =
     (case sources s source of
        None \<Rightarrow> s
      | Some x \<Rightarrow>
          (case sn_onended x of
             None \<Rightarrow> s
           | Some h \<Rightarrow>
               let s1 = s\<lparr>activeSources := activeSources s - {source}\<rparr>
               in if h = PlayEnded Sfx then s1
                  else
                    let s2 = s1\<lparr>activeMusicSources := activeMusicSources s1 - {source}\<rparr>
                    in (case currentMusic s2 of
                          None \<Rightarrow> s2
                        | Some cm \<Rightarrow>
                            if cm_source cm = source then s2\<lparr>currentMusic := None\<rparr> else s2)))"

subsection \<open>Pause and resume\<close>

definition pauseMusic :: "audiomark \<Rightarrow> bool outcome \<times> audiomark" where
  "pauseMusic s =
     (if currentMusic s \<noteq> None \<and> \<not> isMusicPaused s
      then
        (case audioContext s of
           None \<Rightarrow> (Threw TypeError, s)
         | Some ctx \<Rightarrow>
             (Returned True,
              (stopMusic (s\<lparr>musicPauseTime := currentTime ctx\<rparr>))\<lparr>isMusicPaused := True\<rparr>))
      else (Returned False, s))"

definition resumeMusic :: "audiomark \<Rightarrow> bool outcome \<times> audiomark" where
  "resumeMusic s =
     (case currentMusic s of
        None \<Rightarrow> (Returned False, s)
      | Some cm \<Rightarrow>
          if \<not> isMusicPaused s then (Returned False, s)
          else
            let elapsed = musicPauseTime s - cm_startTime cm
            in (case map_of (audioBuffers s) (cm_name cm) of
                  None \<Rightarrow> (Returned False, s)
                | Some buffer \<Rightarrow>
                    (case audioContext s of
                       None \<Rightarrow> (Threw TypeError, s)
                     | Some ctx \<Rightarrow>
                         let source = next_id s;
                             s1 = new_source buffer (cm_loop cm) s
                         in (case musicGain s1 of
                               None \<Rightarrow> (Threw TypeError, s1)
                             | Some bus \<Rightarrow>
                                 let s2 = connect_source source bus s1
                                 in (case (if cm_loop cm then js_rem elapsed (buf_duration buffer)
                                           else Some elapsed) of
                                       None \<Rightarrow> (Threw TypeError, s2)
                                     | Some offset \<Rightarrow>
                                         let s3 = upd_source source
                                                    (\<lambda>x. x\<lparr>sn_offset := Some offset\<rparr>) s2;
                                             s4 = s3\<lparr>currentMusic :=
                                                       Some (cm\<lparr>cm_source := source,
                                                                cm_startTime := currentTime ctx - elapsed\<rparr>),
                                                     activeMusicSources :=
                                                       insert source (activeMusicSources s3),
                                                     activeSources :=
                                                       insert source (activeSources s3)\<rparr>;
                                             s5 = upd_source source
                                                    (\<lambda>x. x\<lparr>sn_onended := Some ResumeEnded\<rparr>) s4
                                         in (Returned True, s5\<lparr>isMusicPaused := False\<rparr>))))))"

subsection \<open>Volume\<close>

definition setVolume :: "string \<Rightarrow> js_number \<Rightarrow> audiomark \<Rightarrow> unit outcome \<times> audiomark" where
  "setVolume type volume s =
     (let volume = js_max (Num 0) (js_min (Num 100) volume);
          s1 = (if type = ''master'' then s\<lparr>vol_master := volume\<rparr>
                else if type = ''music'' then s\<lparr>vol_music := volume\<rparr>
                else if type = ''sfx'' then s\<lparr>vol_sfx := volume\<rparr>
                else s\<lparr>vol_other := (vol_other s)(type \<mapsto> volume)\<rparr>)
      in updateVolumes s1)"

definition getVolume :: "string \<Rightarrow> audiomark \<Rightarrow> js_number option" where
  "getVolume type s =
     (if type = ''master'' then Some (vol_master s)
      else if type = ''music'' then Some (vol_music s)
      else if type = ''sfx'' then Some (vol_sfx s)
      else vol_other s type)"

subsection \<open>Fade-out and transition\<close>

text \<open>The \<open>try\<close> block of \<open>fadeOut\<close>; every source handle is a node, so
  \<open>source.connect\<close> is always there and the gain node is always created.\<close>

definition fadeOut_try :: "platform_call set \<Rightarrow> node_id \<Rightarrow> real \<Rightarrow> audiomark \<Rightarrow> audiomark + audiomark" where
  "fadeOut_try th source duration s =
     (case audioContext s of
        None \<Rightarrow> Inl s
      | Some ctx \<Rightarrow>
     let now = currentTime ctx
     in if CreateGain \<in> th then Inl s
     else
       let gainNode = next_id s; s1 = new_gain s
       in if Disconnect \<in> th then Inl s1
     else
       let s2 = disconnect_source source s1
       in if Connect \<in> th then Inl s2
     else
       let s3 = connect_source source gainNode s2
       in (case musicGain s3 of
             None \<Rightarrow> Inl s3
           | Some bus \<Rightarrow>
       let s4 = connect_gain gainNode (ToNode bus) s3
       in if SetValueAtTime \<in> th then Inl s4
     else
       let s5 = schedule gainNode (SetValue 1 now) s4
       in if LinearRampToValueAtTime \<in> th then Inl s5
     else
       let s6 = schedule gainNode (LinearRamp 0 (now + duration)) s5
       in Inr (s6\<lparr>timers := timers s6 @ [(duration * 1000, source)]\<rparr>)))"

definition fadeOut :: "platform_call set \<Rightarrow> node_id option \<Rightarrow> real option \<Rightarrow> audiomark \<Rightarrow> audiomark" where
  "fadeOut th source duration s =
     (let duration = (case duration of None \<Rightarrow> 1 | Some d \<Rightarrow> d)
      in (case source of
            None \<Rightarrow> s
          | Some src \<Rightarrow>
              if \<not> isInitialized s then s
              else
                (case fadeOut_try th src duration s of
                   Inl s' \<Rightarrow> alert_user FadeOutError s'
                 | Inr s' \<Rightarrow> s')))"

text \<open>\<open>transitionMusic\<close>; the two sets are the platform's behaviour during the play call
  and during the fade-out. \<open>options.volume || 1.0\<close> takes 1 for a missing or zero volume.\<close>

definition transitionMusic ::
  "platform_call set \<Rightarrow> platform_call set \<Rightarrow> string \<Rightarrow> real option \<Rightarrow> play_options \<Rightarrow> audiomark
     \<Rightarrow> bool outcome \<times> audiomark" where
  "transitionMusic th_play th_fade newTrackName transitionTime options s =
     (let transitionTime = (case transitionTime of None \<Rightarrow> 2 | Some t \<Rightarrow> t)
      in if newTrackName \<notin> fst ` set (audioBuffers s)
         then (Returned False, alert_user (TrackNotLoaded newTrackName) s)
         else
           let currentSource = (case currentMusic s of None \<Rightarrow> None | Some cm \<Rightarrow> Some (cm_source cm))
           in (case playMusic th_play newTrackName
                      (options\<lparr>opt_fadeIn := Some transitionTime,
                               opt_volume :=
                                 Some (case opt_volume options of
                                         None \<Rightarrow> 1
                                       | Some v \<Rightarrow> if v = 0 then 1 else v),
                               opt_stopCurrent := Some False\<rparr>) s of
                 (Threw e, s1) \<Rightarrow> (Threw e, s1)
               | (Returned newSource, s1) \<Rightarrow>
                   (Returned True,
                    (case currentSource of
                       None \<Rightarrow> s1
                     | Some c \<Rightarrow> fadeOut th_fade (Some c) (Some transitionTime) s1))))"

subsection \<open>Teardown and platform events\<close>

definition cleanup :: "audiomark \<Rightarrow> audiomark" where
  "cleanup s =
     (let s1 = stopAll s
      in s1\<lparr>audioContext := None,
            audioBuffers := [],
            activeSources := {},
            activeMusicSources := {},
            currentMusic := None,
            isInitialized := False\<rparr>)"

text \<open>A timer set by \<open>fadeOut\<close> fires: its callback stops the source, swallowing what the
  platform raises.\<close>

definition fire_timer :: "node_id \<Rightarrow> audiomark \<Rightarrow> audiomark" where
  "fire_timer source s = s\<lparr>sources := stop_each {source} (sources s)\<rparr>"

subsection \<open>The state snapshot\<close>

definition getState :: "audiomark \<Rightarrow> snapshot" where
  "getState s =
     \<lparr>st_isInitialized = isInitialized s,
      st_audioContextState = (case audioContext s of None \<Rightarrow> ''none'' | Some ctx \<Rightarrow> ctx_state ctx),
      st_loadedAudio = map fst (audioBuffers s),
      st_activeSources = card (activeSources s),
      st_activeMusicSources = card (activeMusicSources s),
      st_currentMusic = (case currentMusic s of None \<Rightarrow> None | Some cm \<Rightarrow> Some (cm_name cm)),
      st_isMusicPaused = isMusicPaused s,
      st_volumes = (vol_master s, vol_music s, vol_sfx s),
      st_volumes_other = vol_other s\<rparr>"

section \<open>Sessions used as examples\<close>

text \<open>A session that has been constructed, initialised on a platform that raises nothing,
  and has one ten-second buffer loaded; the same session with that buffer playing as music
  for three seconds; and with the buffer playing as a sound effect at half volume.\<close>

definition no_options :: play_options where
  "no_options = \<lparr>opt_loop = None, opt_volume = None, opt_fadeIn = None, opt_stopCurrent = None\<rparr>"

definition ready :: audiomark where
  "ready = snd (loadAudio ''theme'' (Some \<lparr>buf_duration = 10\<rparr>)
                 (snd (initialize {} False constructor)))"

definition playing :: audiomark where
  "playing = advance 3 (snd (playMusic {} ''theme'' no_options ready))"

definition half_volume_sfx :: audiomark where
  "half_volume_sfx = snd (playSFX {} ''theme'' (no_options\<lparr>opt_volume := Some (1 / 2)\<rparr>) ready)"

text \<open>The handles an initialised engine dereferences are there.\<close>

definition handles_present :: "audiomark \<Rightarrow> bool" where
  "handles_present s =
     (isInitialized s \<longrightarrow>
        audioContext s \<noteq> None \<and> masterGain s \<noteq> None \<and> musicGain s \<noteq> None \<and> sfxGain s \<noteq> None)"

text \<open>The three stored volumes are finite numbers.\<close>

fun is_num :: "js_number \<Rightarrow> bool" where
  "is_num (Num a) = True"
| "is_num x = False"

definition volumes_are_numbers :: "audiomark \<Rightarrow> bool" where
  "volumes_are_numbers s = (is_num (vol_master s) \<and> is_num (vol_music s) \<and> is_num (vol_sfx s))"

text \<open>While the paused flag is set no current track is recorded.\<close>

definition paused_without_track :: "audiomark \<Rightarrow> bool" where
  "paused_without_track s = (isMusicPaused s \<longrightarrow> currentMusic s = None)"

text \<open>A paused session with its current track still recorded: the playing session,
  paused by \<open>pauseMusic\<close> at host time 25, with the \<open>currentMusic\<close> field it had before
  the pause written back by hand.\<close>

definition paused_by_hand :: audiomark where
  "paused_by_hand =
     (snd (pauseMusic (advance 22 playing)))\<lparr>currentMusic := currentMusic playing\<rparr>"

text \<open>The states a session goes through: the public methods, on any arguments and any
  behaviour of the platform, and the platform's events (the clock moving on, a source
  ending, a timer firing).\<close>

inductive reachable :: "audiomark \<Rightarrow> bool" where
  r_constructor: "reachable constructor"
| r_initialize: "reachable s \<Longrightarrow> reachable (snd (initialize th suspended s))"
| r_loadAudio: "reachable s \<Longrightarrow> reachable (snd (loadAudio name decoded s))"
| r_unloadAudio: "reachable s \<Longrightarrow> reachable (snd (unloadAudio name s))"
| r_playSFX: "reachable s \<Longrightarrow> reachable (snd (playSFX th name options s))"
| r_playMusic: "reachable s \<Longrightarrow> reachable (snd (playMusic th name options s))"
| r_stopMusic: "reachable s \<Longrightarrow> reachable (stopMusic s)"
| r_pauseMusic: "reachable s \<Longrightarrow> reachable (snd (pauseMusic s))"
| r_resumeMusic: "reachable s \<Longrightarrow> reachable (snd (resumeMusic s))"
| r_stopAll: "reachable s \<Longrightarrow> reachable (stopAll s)"
| r_setVolume: "reachable s \<Longrightarrow> reachable (snd (setVolume type volume s))"
| r_fadeOut: "reachable s \<Longrightarrow> reachable (fadeOut th source duration s)"
| r_transitionMusic:
    "reachable s \<Longrightarrow> reachable (snd (transitionMusic th_play th_fade name t options s))"
| r_cleanup: "reachable s \<Longrightarrow> reachable (cleanup s)"
| r_advance: "reachable s \<Longrightarrow> 0 \<le> dt \<Longrightarrow> reachable (advance dt s)"
| r_onended: "reachable s \<Longrightarrow> reachable (onended source s)"
| r_fire_timer: "reachable s \<Longrightarrow> reachable (fire_timer source s)"

text \<open>The gain stage \<open>fadeOut\<close> builds at host time \<open>now\<close> for a fade of \<open>d\<close> seconds.\<close>

definition fade_stage :: "real \<Rightarrow> real \<Rightarrow> node_id \<Rightarrow> gain_node" where
  "fade_stage now d bus =
     \<lparr>gn_events = [SetValue 1 now, LinearRamp 0 (now + d)], gn_out = [ToNode bus]\<rparr>"


section \<open>Selectors of the platform primitives\<close>

lemma alert_user_sel [simp]:
  "audioContext (alert_user a s) = audioContext s"
  "masterGain (alert_user a s) = masterGain s"
  "musicGain (alert_user a s) = musicGain s"
  "sfxGain (alert_user a s) = sfxGain s"
  "vol_master (alert_user a s) = vol_master s"
  "vol_music (alert_user a s) = vol_music s"
  "vol_sfx (alert_user a s) = vol_sfx s"
  "vol_other (alert_user a s) = vol_other s"
  "audioBuffers (alert_user a s) = audioBuffers s"
  "activeSources (alert_user a s) = activeSources s"
  "activeMusicSources (alert_user a s) = activeMusicSources s"
  "currentMusic (alert_user a s) = currentMusic s"
  "isMusicPaused (alert_user a s) = isMusicPaused s"
  "musicStartTime (alert_user a s) = musicStartTime s"
  "musicPauseTime (alert_user a s) = musicPauseTime s"
  "isInitialized (alert_user a s) = isInitialized s"
  "sources (alert_user a s) = sources s"
  "gains (alert_user a s) = gains s"
  "next_id (alert_user a s) = next_id s"
  "timers (alert_user a s) = timers s"
  "alerts (alert_user a s) = alerts s @ [a]"
  by (simp_all add: alert_user_def)

lemma new_gain_sel [simp]:
  "audioContext (new_gain s) = audioContext s"
  "masterGain (new_gain s) = masterGain s"
  "musicGain (new_gain s) = musicGain s"
  "sfxGain (new_gain s) = sfxGain s"
  "vol_master (new_gain s) = vol_master s"
  "vol_music (new_gain s) = vol_music s"
  "vol_sfx (new_gain s) = vol_sfx s"
  "vol_other (new_gain s) = vol_other s"
  "audioBuffers (new_gain s) = audioBuffers s"
  "activeSources (new_gain s) = activeSources s"
  "activeMusicSources (new_gain s) = activeMusicSources s"
  "currentMusic (new_gain s) = currentMusic s"
  "isMusicPaused (new_gain s) = isMusicPaused s"
  "musicStartTime (new_gain s) = musicStartTime s"
  "musicPauseTime (new_gain s) = musicPauseTime s"
  "isInitialized (new_gain s) = isInitialized s"
  "sources (new_gain s) = sources s"
  "gains (new_gain s) n =
     (if n = next_id s then Some \<lparr>gn_events = [], gn_out = []\<rparr> else gains s n)"
  "next_id (new_gain s) = next_id s + 1"
  "timers (new_gain s) = timers s"
  "alerts (new_gain s) = alerts s"
  by (simp_all add: new_gain_def)

lemma new_source_sel [simp]:
  "audioContext (new_source b l s) = audioContext s"
  "masterGain (new_source b l s) = masterGain s"
  "musicGain (new_source b l s) = musicGain s"
  "sfxGain (new_source b l s) = sfxGain s"
  "vol_master (new_source b l s) = vol_master s"
  "vol_music (new_source b l s) = vol_music s"
  "vol_sfx (new_source b l s) = vol_sfx s"
  "vol_other (new_source b l s) = vol_other s"
  "audioBuffers (new_source b l s) = audioBuffers s"
  "activeSources (new_source b l s) = activeSources s"
  "activeMusicSources (new_source b l s) = activeMusicSources s"
  "currentMusic (new_source b l s) = currentMusic s"
  "isMusicPaused (new_source b l s) = isMusicPaused s"
  "musicStartTime (new_source b l s) = musicStartTime s"
  "musicPauseTime (new_source b l s) = musicPauseTime s"
  "isInitialized (new_source b l s) = isInitialized s"
  "sources (new_source b l s) n =
     (if n = next_id s
      then Some \<lparr>sn_buffer = b, sn_loop = l, sn_out = [], sn_offset = None,
                 sn_stopped = False, sn_onended = None\<rparr>
      else sources s n)"
  "gains (new_source b l s) = gains s"
  "next_id (new_source b l s) = next_id s + 1"
  "timers (new_source b l s) = timers s"
  "alerts (new_source b l s) = alerts s"
  by (simp_all add: new_source_def)

lemma upd_gain_sel [simp]:
  "audioContext (upd_gain g f s) = audioContext s"
  "masterGain (upd_gain g f s) = masterGain s"
  "musicGain (upd_gain g f s) = musicGain s"
  "sfxGain (upd_gain g f s) = sfxGain s"
  "vol_master (upd_gain g f s) = vol_master s"
  "vol_music (upd_gain g f s) = vol_music s"
  "vol_sfx (upd_gain g f s) = vol_sfx s"
  "vol_other (upd_gain g f s) = vol_other s"
  "audioBuffers (upd_gain g f s) = audioBuffers s"
  "activeSources (upd_gain g f s) = activeSources s"
  "activeMusicSources (upd_gain g f s) = activeMusicSources s"
  "currentMusic (upd_gain g f s) = currentMusic s"
  "isMusicPaused (upd_gain g f s) = isMusicPaused s"
  "musicStartTime (upd_gain g f s) = musicStartTime s"
  "musicPauseTime (upd_gain g f s) = musicPauseTime s"
  "isInitialized (upd_gain g f s) = isInitialized s"
  "sources (upd_gain g f s) = sources s"
  "gains (upd_gain g f s) n = (if n = g then map_option f (gains s g) else gains s n)"
  "next_id (upd_gain g f s) = next_id s"
  "timers (upd_gain g f s) = timers s"
  "alerts (upd_gain g f s) = alerts s"
  by (simp_all add: upd_gain_def split: option.splits)

lemma upd_source_sel [simp]:
  "audioContext (upd_source g f s) = audioContext s"
  "masterGain (upd_source g f s) = masterGain s"
  "musicGain (upd_source g f s) = musicGain s"
  "sfxGain (upd_source g f s) = sfxGain s"
  "vol_master (upd_source g f s) = vol_master s"
  "vol_music (upd_source g f s) = vol_music s"
  "vol_sfx (upd_source g f s) = vol_sfx s"
  "vol_other (upd_source g f s) = vol_other s"
  "audioBuffers (upd_source g f s) = audioBuffers s"
  "activeSources (upd_source g f s) = activeSources s"
  "activeMusicSources (upd_source g f s) = activeMusicSources s"
  "currentMusic (upd_source g f s) = currentMusic s"
  "isMusicPaused (upd_source g f s) = isMusicPaused s"
  "musicStartTime (upd_source g f s) = musicStartTime s"
  "musicPauseTime (upd_source g f s) = musicPauseTime s"
  "isInitialized (upd_source g f s) = isInitialized s"
  "sources (upd_source g f s) n = (if n = g then map_option f (sources s g) else sources s n)"
  "gains (upd_source g f s) = gains s"
  "next_id (upd_source g f s) = next_id s"
  "timers (upd_source g f s) = timers s"
  "alerts (upd_source g f s) = alerts s"
  by (simp_all add: upd_source_def split: option.splits)

lemma advance_sel [simp]:
  "audioContext (advance dt s) =
     map_option (\<lambda>c. c\<lparr>currentTime := currentTime c + dt\<rparr>) (audioContext s)"
  "masterGain (advance dt s) = masterGain s"
  "musicGain (advance dt s) = musicGain s"
  "sfxGain (advance dt s) = sfxGain s"
  "vol_master (advance dt s) = vol_master s"
  "vol_music (advance dt s) = vol_music s"
  "vol_sfx (advance dt s) = vol_sfx s"
  "vol_other (advance dt s) = vol_other s"
  "audioBuffers (advance dt s) = audioBuffers s"
  "activeSources (advance dt s) = activeSources s"
  "activeMusicSources (advance dt s) = activeMusicSources s"
  "currentMusic (advance dt s) = currentMusic s"
  "isMusicPaused (advance dt s) = isMusicPaused s"
  "musicStartTime (advance dt s) = musicStartTime s"
  "musicPauseTime (advance dt s) = musicPauseTime s"
  "isInitialized (advance dt s) = isInitialized s"
  "sources (advance dt s) = sources s"
  "gains (advance dt s) = gains s"
  "next_id (advance dt s) = next_id s"
  "timers (advance dt s) = timers s"
  "alerts (advance dt s) = alerts s"
  by (simp_all add: advance_def)

lemmas graph_defs = connect_gain_def connect_source_def disconnect_source_def schedule_def

section \<open>The example sessions, evaluated\<close>

lemma ready_fields:
  "audioContext ready = Some \<lparr>currentTime = 0, ctx_state = ''running''\<rparr>"
  "masterGain ready = Some 0" "musicGain ready = Some 1" "sfxGain ready = Some 2"
  "vol_master ready = Num 100" "vol_music ready = Num 100" "vol_sfx ready = Num 100"
  "audioBuffers ready = [(''theme'', \<lparr>buf_duration = 10\<rparr>)]"
  "activeSources ready = {}" "activeMusicSources ready = {}"
  "currentMusic ready = None" "isMusicPaused ready = False"
  "isInitialized ready = True"
  "sources ready = Map.empty"
  "gains ready 0 = Some \<lparr>gn_events = [], gn_out = [ToDestination]\<rparr>"
  "gains ready 1 = Some \<lparr>gn_events = [], gn_out = [ToNode 0]\<rparr>"
  "gains ready 2 = Some \<lparr>gn_events = [], gn_out = [ToNode 0]\<rparr>"
  "next_id ready = 3" "timers ready = []" "alerts ready = []"
  by (simp_all add: ready_def loadAudio_def initialize_def initialize_try_def constructor_def
        updateVolumes_def graph_defs Let_def)

lemma playing_fields:
  "audioContext playing = Some \<lparr>currentTime = 3, ctx_state = ''running''\<rparr>"
  "masterGain playing = Some 0" "musicGain playing = Some 1" "sfxGain playing = Some 2"
  "audioBuffers playing = [(''theme'', \<lparr>buf_duration = 10\<rparr>)]"
  "activeSources playing = {3}" "activeMusicSources playing = {3}"
  "currentMusic playing =
     Some \<lparr>cm_source = 3, cm_name = ''theme'', cm_startTime = 0, cm_loop = True\<rparr>"
  "isMusicPaused playing = False"
  "isInitialized playing = True"
  "next_id playing = 5" "timers playing = []" "sources playing 5 = None"
  by (simp_all add: playing_def playMusic_def playAudio_def playAudio_try_def no_options_def
        ready_fields graph_defs Let_def)

section \<open>What the operations leave alone\<close>

lemma playAudio_keeps:
  "audioContext (snd (playAudio th name g opts s)) = audioContext s"
  "masterGain (snd (playAudio th name g opts s)) = masterGain s"
  "musicGain (snd (playAudio th name g opts s)) = musicGain s"
  "sfxGain (snd (playAudio th name g opts s)) = sfxGain s"
  "isInitialized (snd (playAudio th name g opts s)) = isInitialized s"
  "isMusicPaused (snd (playAudio th name g opts s)) = isMusicPaused s"
  "currentMusic (snd (playAudio th name g opts s)) = currentMusic s"
  "activeMusicSources (snd (playAudio th name g opts s)) = activeMusicSources s"
  by (simp_all add: playAudio_def playAudio_try_def Let_def graph_defs
        split: option.splits sum.splits)

lemma fadeOut_keeps:
  "audioContext (fadeOut th src d s) = audioContext s"
  "masterGain (fadeOut th src d s) = masterGain s"
  "musicGain (fadeOut th src d s) = musicGain s"
  "sfxGain (fadeOut th src d s) = sfxGain s"
  "isInitialized (fadeOut th src d s) = isInitialized s"
  "isMusicPaused (fadeOut th src d s) = isMusicPaused s"
  "currentMusic (fadeOut th src d s) = currentMusic s"
  "activeMusicSources (fadeOut th src d s) = activeMusicSources s"
  "activeSources (fadeOut th src d s) = activeSources s"
  "audioBuffers (fadeOut th src d s) = audioBuffers s"
  by (simp_all add: fadeOut_def fadeOut_try_def Let_def graph_defs split: option.splits)

lemma updateVolumes_keeps:
  "audioContext (snd (updateVolumes s)) = audioContext s"
  "masterGain (snd (updateVolumes s)) = masterGain s"
  "musicGain (snd (updateVolumes s)) = musicGain s"
  "sfxGain (snd (updateVolumes s)) = sfxGain s"
  "isInitialized (snd (updateVolumes s)) = isInitialized s"
  "isMusicPaused (snd (updateVolumes s)) = isMusicPaused s"
  "currentMusic (snd (updateVolumes s)) = currentMusic s"
  "vol_master (snd (updateVolumes s)) = vol_master s"
  "vol_music (snd (updateVolumes s)) = vol_music s"
  "vol_sfx (snd (updateVolumes s)) = vol_sfx s"
  "vol_other (snd (updateVolumes s)) = vol_other s"
  by (simp_all add: updateVolumes_def set_bus_gain_def Let_def graph_defs
        split: option.splits js_number.splits)

lemma setVolume_keeps:
  "audioContext (snd (setVolume b v s)) = audioContext s"
  "masterGain (snd (setVolume b v s)) = masterGain s"
  "musicGain (snd (setVolume b v s)) = musicGain s"
  "sfxGain (snd (setVolume b v s)) = sfxGain s"
  "isInitialized (snd (setVolume b v s)) = isInitialized s"
  "isMusicPaused (snd (setVolume b v s)) = isMusicPaused s"
  "currentMusic (snd (setVolume b v s)) = currentMusic s"
  by (simp_all add: setVolume_def updateVolumes_keeps Let_def)

lemma playMusic_keeps:
  "audioContext (snd (playMusic th name options s)) = audioContext s"
  "masterGain (snd (playMusic th name options s)) = masterGain s"
  "musicGain (snd (playMusic th name options s)) = musicGain s"
  "sfxGain (snd (playMusic th name options s)) = sfxGain s"
  "isInitialized (snd (playMusic th name options s)) = isInitialized s"
  "paused_without_track s \<Longrightarrow> paused_without_track (snd (playMusic th name options s))"
proof -
  define ao where "ao =
     \<lparr>ao_loop = (case opt_loop options of None \<Rightarrow> True | Some b \<Rightarrow> b),
      ao_volume = (case opt_volume options of None \<Rightarrow> 1 | Some v \<Rightarrow> v),
      ao_fadeIn = (case opt_fadeIn options of None \<Rightarrow> 0 | Some f \<Rightarrow> f),
      ao_type = Music\<rparr>"
  define s1 where "s1 =
     (if (case opt_stopCurrent options of None \<Rightarrow> True | Some b \<Rightarrow> b) \<and> currentMusic s \<noteq> None
      then stopMusic s else s)"
  obtain r s2 where pa: "playAudio th name (musicGain s1) ao s1 = (r, s2)"
    by (cases "playAudio th name (musicGain s1) ao s1")
  have s1: "audioContext s1 = audioContext s" "masterGain s1 = masterGain s"
    "musicGain s1 = musicGain s" "sfxGain s1 = sfxGain s" "isInitialized s1 = isInitialized s"
    by (simp_all add: s1_def stopMusic_def)
  have s2: "audioContext s2 = audioContext s" "masterGain s2 = masterGain s"
    "musicGain s2 = musicGain s" "sfxGain s2 = sfxGain s" "isInitialized s2 = isInitialized s"
    using playAudio_keeps(1-5) [where th = th and name = name and g = "musicGain s1"
            and opts = ao and s = s1] pa s1 by simp_all
  have pm: "snd (playMusic th name options s) =
      (case r of
         None \<Rightarrow> s2
       | Some source \<Rightarrow>
           (case audioContext s2 of
              None \<Rightarrow> s2
            | Some ctx \<Rightarrow>
                 s2\<lparr>currentMusic :=
                      Some \<lparr>cm_source = source, cm_name = name,
                            cm_startTime = currentTime ctx,
                            cm_loop = (case opt_loop options of None \<Rightarrow> True | Some b \<Rightarrow> b)\<rparr>,
                    isMusicPaused := False,
                    activeMusicSources := insert source (activeMusicSources s2)\<rparr>))"
    using pa [unfolded ao_def s1_def] by (simp add: playMusic_def split: option.splits)
  show "audioContext (snd (playMusic th name options s)) = audioContext s"
    "masterGain (snd (playMusic th name options s)) = masterGain s"
    "musicGain (snd (playMusic th name options s)) = musicGain s"
    "sfxGain (snd (playMusic th name options s)) = sfxGain s"
    "isInitialized (snd (playMusic th name options s)) = isInitialized s"
    using s2 by (simp_all add: pm split: option.splits)
  have s1p: "paused_without_track s1" if "paused_without_track s"
    using that by (simp add: s1_def stopMusic_def paused_without_track_def)
  have s2p: "isMusicPaused s2 = isMusicPaused s1" "currentMusic s2 = currentMusic s1"
    using playAudio_keeps(6,7) [where th = th and name = name and g = "musicGain s1"
            and opts = ao and s = s1] pa by simp_all
  show "paused_without_track (snd (playMusic th name options s))" if "paused_without_track s"
    using s1p [OF that] s2p by (simp add: pm paused_without_track_def split: option.splits)
qed

lemma updateVolumes_result:
  assumes "updateVolumes s = (r, s')"
  shows "audioContext s' = audioContext s \<and> masterGain s' = masterGain s
       \<and> musicGain s' = musicGain s \<and> sfxGain s' = sfxGain s
       \<and> isInitialized s' = isInitialized s \<and> isMusicPaused s' = isMusicPaused s
       \<and> currentMusic s' = currentMusic s"
  using updateVolumes_keeps(1-7) [of s] assms by simp

lemma initialize_keeps:
  "isMusicPaused (snd (initialize th suspended s)) = isMusicPaused s"
  "currentMusic (snd (initialize th suspended s)) = currentMusic s"
  by (auto simp add: initialize_def initialize_try_def Let_def graph_defs
        split: sum.splits prod.splits outcome.splits if_splits dest!: updateVolumes_result)

lemma initialize_handles_present:
  assumes "handles_present s"
  shows "handles_present (snd (initialize th suspended s))"
  using assms
  by (auto simp add: initialize_def initialize_try_def handles_present_def
        Let_def graph_defs split: sum.splits prod.splits outcome.splits if_splits
        dest!: updateVolumes_result)

lemma transitionMusic_keeps:
  "audioContext (snd (transitionMusic thp thf name t options s)) = audioContext s"
  "masterGain (snd (transitionMusic thp thf name t options s)) = masterGain s"
  "musicGain (snd (transitionMusic thp thf name t options s)) = musicGain s"
  "sfxGain (snd (transitionMusic thp thf name t options s)) = sfxGain s"
  "isInitialized (snd (transitionMusic thp thf name t options s)) = isInitialized s"
  "paused_without_track s \<Longrightarrow>
     paused_without_track (snd (transitionMusic thp thf name t options s))"
proof -
  let ?opts = "options\<lparr>opt_fadeIn := Some (case t of None \<Rightarrow> 2 | Some t \<Rightarrow> t),
                       opt_volume := Some (case opt_volume options of
                                             None \<Rightarrow> 1 | Some v \<Rightarrow> if v = 0 then 1 else v),
                       opt_stopCurrent := Some False\<rparr>"
  obtain r s1 where pm: "playMusic thp name ?opts s = (r, s1)"
    by (cases "playMusic thp name ?opts s")
  note k = playMusic_keeps [where th = thp and name = name and options = ?opts and s = s,
             unfolded pm snd_conv]
  have tm: "snd (transitionMusic thp thf name t options s) = s
            \<or> snd (transitionMusic thp thf name t options s)
                 = alert_user (TrackNotLoaded name) s
            \<or> snd (transitionMusic thp thf name t options s) = s1
            \<or> (\<exists>c d. snd (transitionMusic thp thf name t options s) = fadeOut thf c d s1)"
    using pm by (auto simp add: transitionMusic_def Let_def split: option.splits outcome.splits)
  show "audioContext (snd (transitionMusic thp thf name t options s)) = audioContext s"
    "masterGain (snd (transitionMusic thp thf name t options s)) = masterGain s"
    "musicGain (snd (transitionMusic thp thf name t options s)) = musicGain s"
    "sfxGain (snd (transitionMusic thp thf name t options s)) = sfxGain s"
    "isInitialized (snd (transitionMusic thp thf name t options s)) = isInitialized s"
    using tm k(1-5) by (auto simp add: fadeOut_keeps)
  show "paused_without_track (snd (transitionMusic thp thf name t options s))"
    if "paused_without_track s"
    using tm k(6) [OF that] that by (auto simp add: fadeOut_keeps paused_without_track_def)
qed

lemma resumeMusic_keeps:
  "audioContext (snd (resumeMusic s)) = audioContext s"
  "masterGain (snd (resumeMusic s)) = masterGain s"
  "musicGain (snd (resumeMusic s)) = musicGain s"
  "sfxGain (snd (resumeMusic s)) = sfxGain s"
  "isInitialized (snd (resumeMusic s)) = isInitialized s"
  by (simp_all add: resumeMusic_def Let_def graph_defs split: option.splits)

lemma resumeMusic_never_succeeds:
  assumes "paused_without_track s"
  shows "resumeMusic s = (Returned False, s)"
  using assms by (auto simp add: resumeMusic_def paused_without_track_def split: option.splits)

section \<open>Invariants of the reachable states\<close>

text \<open>In every state a session can get into, an initialised engine holds its context
  and its three bus nodes, and a paused session records no current track. The second
  invariant means that \<open>resumeMusic\<close> returns false in every reachable state.\<close>

lemma reachable_handles_present:
  assumes "reachable s"
  shows "handles_present s"
  using assms
proof (induction rule: reachable.induct)
  case r_constructor
  show ?case by (simp add: handles_present_def constructor_def)
next
  case (r_initialize s th suspended)
  then show ?case by (simp add: initialize_handles_present)
next
  case (r_loadAudio s name decoded)
  then show ?case
    by (auto simp add: handles_present_def loadAudio_def split: option.splits)
next
  case (r_unloadAudio s name)
  then show ?case by (simp add: handles_present_def unloadAudio_def)
next
  case (r_playSFX s th name options)
  then show ?case by (simp add: handles_present_def playSFX_def playAudio_keeps Let_def)
next
  case (r_playMusic s th name options)
  then show ?case by (simp add: handles_present_def playMusic_keeps)
next
  case (r_stopMusic s)
  then show ?case by (simp add: handles_present_def stopMusic_def)
next
  case (r_pauseMusic s)
  then show ?case
    by (auto simp add: handles_present_def pauseMusic_def stopMusic_def split: option.splits)
next
  case (r_resumeMusic s)
  then show ?case by (simp add: handles_present_def resumeMusic_keeps)
next
  case (r_stopAll s)
  then show ?case by (simp add: handles_present_def stopAll_def)
next
  case (r_setVolume s type volume)
  then show ?case by (simp add: handles_present_def setVolume_keeps)
next
  case (r_fadeOut s th source duration)
  then show ?case by (simp add: handles_present_def fadeOut_keeps)
next
  case (r_transitionMusic s th_play th_fade name t options)
  then show ?case by (simp add: handles_present_def transitionMusic_keeps)
next
  case (r_cleanup s)
  then show ?case by (simp add: handles_present_def cleanup_def stopAll_def)
next
  case (r_advance s dt)
  then show ?case by (simp add: handles_present_def)
next
  case (r_onended s source)
  then show ?case
    by (auto simp add: handles_present_def onended_def Let_def split: option.splits)
next
  case (r_fire_timer s source)
  then show ?case by (simp add: handles_present_def fire_timer_def)
qed

lemma reachable_paused_without_track:
  assumes "reachable s"
  shows "paused_without_track s"
  using assms
proof (induction rule: reachable.induct)
  case r_constructor
  show ?case by (simp add: paused_without_track_def constructor_def)
next
  case (r_initialize s th suspended)
  then show ?case by (simp add: paused_without_track_def initialize_keeps)
next
  case (r_loadAudio s name decoded)
  then show ?case
    by (auto simp add: paused_without_track_def loadAudio_def split: option.splits)
next
  case (r_unloadAudio s name)
  then show ?case by (simp add: paused_without_track_def unloadAudio_def)
next
  case (r_playSFX s th name options)
  then show ?case by (simp add: paused_without_track_def playSFX_def playAudio_keeps Let_def)
next
  case (r_playMusic s th name options)
  then show ?case by (simp add: playMusic_keeps)
next
  case (r_stopMusic s)
  then show ?case by (simp add: paused_without_track_def stopMusic_def)
next
  case (r_pauseMusic s)
  then show ?case
    by (auto simp add: paused_without_track_def pauseMusic_def stopMusic_def split: option.splits)
next
  case (r_resumeMusic s)
  then show ?case by (simp add: resumeMusic_never_succeeds)
next
  case (r_stopAll s)
  then show ?case by (simp add: paused_without_track_def stopAll_def)
next
  case (r_setVolume s type volume)
  then show ?case by (simp add: paused_without_track_def setVolume_keeps)
next
  case (r_fadeOut s th source duration)
  then show ?case by (simp add: paused_without_track_def fadeOut_keeps)
next
  case (r_transitionMusic s th_play th_fade name t options)
  then show ?case by (simp add: transitionMusic_keeps)
next
  case (r_cleanup s)
  then show ?case by (simp add: paused_without_track_def cleanup_def stopAll_def)
next
  case (r_advance s dt)
  then show ?case by (simp add: paused_without_track_def)
next
  case (r_onended s source)
  then show ?case
    by (auto simp add: paused_without_track_def onended_def Let_def split: option.splits)
next
  case (r_fire_timer s source)
  then show ?case by (simp add: paused_without_track_def fire_timer_def)
qed

section \<open>Volume\<close>

lemma updateVolumes_returns:
  assumes "handles_present s" and "volumes_are_numbers s"
  shows "fst (updateVolumes s) = Returned ()"
proof -
  from assms(2) obtain a b c where
    "vol_master s = Num a" "vol_music s = Num b" "vol_sfx s = Num c"
    by (cases "vol_master s"; cases "vol_music s"; cases "vol_sfx s")
       (simp_all add: volumes_are_numbers_def)
  with assms(1) show ?thesis
    by (auto simp add: updateVolumes_def set_bus_gain_def handles_present_def Let_def graph_defs)
qed

lemma js_clamp_cases:
  "js_max (Num 0) (js_min (Num 100) (Num r)) = Num (max 0 (min 100 r))"
  "js_max (Num 0) (js_min (Num 100) PosInf) = Num 100"
  "js_max (Num 0) (js_min (Num 100) NegInf) = Num 0"
  "js_max (Num 0) (js_min (Num 100) NaN) = NaN"
  by simp_all

lemma js_clamp_is_num:
  assumes "v \<noteq> NaN"
  shows "is_num (js_max (Num 0) (js_min (Num 100) v))"
  using assms by (cases v) simp_all

lemma setVolume_stores:
  assumes "b \<in> {''master'', ''music'', ''sfx''}"
  shows "getVolume b (snd (setVolume b v s)) = Some (js_max (Num 0) (js_min (Num 100) v))"
    and "b' \<in> {''master'', ''music'', ''sfx''} \<Longrightarrow> b' \<noteq> b \<Longrightarrow>
           getVolume b' (snd (setVolume b v s)) = getVolume b' s"
  using assms by (auto simp add: setVolume_def getVolume_def updateVolumes_keeps Let_def)

lemma setVolume_returns:
  assumes "b \<in> {''master'', ''music'', ''sfx''}" and "v \<noteq> NaN"
      and "handles_present s" and "volumes_are_numbers s"
  shows "fst (setVolume b v s) = Returned ()"
    and "handles_present (snd (setVolume b v s))"
    and "volumes_are_numbers (snd (setVolume b v s))"
proof -
  let ?c = "js_max (Num 0) (js_min (Num 100) v)"
  define s1 where "s1 = (if b = ''master'' then s\<lparr>vol_master := ?c\<rparr>
                else if b = ''music'' then s\<lparr>vol_music := ?c\<rparr>
                else s\<lparr>vol_sfx := ?c\<rparr>)"
  have sv: "setVolume b v s = updateVolumes s1"
    using assms(1) by (auto simp add: setVolume_def Let_def s1_def)
  have hp: "handles_present s1"
    using assms(3) by (simp add: s1_def handles_present_def)
  have vn: "volumes_are_numbers s1"
    using assms(4) js_clamp_is_num [OF assms(2)] by (simp add: s1_def volumes_are_numbers_def)
  show "fst (setVolume b v s) = Returned ()"
    by (simp add: sv updateVolumes_returns [OF hp vn])
  show "handles_present (snd (setVolume b v s))"
    using hp by (simp add: sv handles_present_def updateVolumes_keeps)
  show "volumes_are_numbers (snd (setVolume b v s))"
    using vn by (simp add: sv volumes_are_numbers_def updateVolumes_keeps)
qed

text \<open>
  Claim C9. A freshly constructed session reports the volume 100 for each of the three
  buses master, music and sfx, before any \<open>setVolume\<close>.
\<close>

theorem constructor_volumes_100:
  "getVolume ''master'' constructor = Some (Num 100)
   \<and> getVolume ''music'' constructor = Some (Num 100)
   \<and> getVolume ''sfx'' constructor = Some (Num 100)"
  by (simp add: getVolume_def constructor_def)

text \<open>
  Claim C6, as stated, at a concrete instance. NaN is a numeric value. On the initialised
  session, \<open>setVolume\<close> of music to NaN stores NaN, since \<open>Math.min\<close> and \<open>Math.max\<close>
  pass a NaN on, so \<open>getVolume\<close> gives NaN and no value between 0 and 100; and the call
  raises a TypeError, because \<open>updateVolumes\<close> hands the NaN to \<open>setValueAtTime\<close>.
\<close>

theorem setVolume_NaN_stored_and_raises:
  "getVolume ''music'' (snd (setVolume ''music'' NaN ready)) = Some NaN
   \<and> fst (setVolume ''music'' NaN ready) = Threw TypeError"
  by (simp add: setVolume_def getVolume_def updateVolumes_def set_bus_gain_def ready_fields
        graph_defs Let_def)

text \<open>Once a NaN is stored, every later \<open>setVolume\<close> raises as well, whatever its value,
  until the NaN is overwritten.\<close>

lemma setVolume_after_NaN_raises:
  "fst (setVolume ''sfx'' (Num 50) (snd (setVolume ''music'' NaN ready))) = Threw TypeError"
  by (simp add: setVolume_def updateVolumes_def set_bus_gain_def ready_fields
        graph_defs Let_def)

text \<open>
  Claim C6, amended. For each of the buses master, music and sfx and every number \<open>v\<close>
  other than NaN, \<open>getVolume\<close> after \<open>setVolume\<close> gives \<open>v\<close> clamped to the interval
  from 0 to 100: the clamped value of a finite \<open>v\<close>, 100 for plus infinity and 0 for minus
  infinity. A second identical \<open>setVolume\<close> leaves the three stored volumes as they were.
  Where an initialised engine holds its context and bus nodes (as it does in every
  reachable state, \<open>reachable_handles_present\<close>) and the three stored volumes are finite
  numbers, both calls return without raising.
\<close>

theorem setVolume_getVolume_clamped:
  assumes "b \<in> {''master'', ''music'', ''sfx''}"
  shows "(\<forall>r. v = Num r \<longrightarrow>
            getVolume b (snd (setVolume b v s)) = Some (Num (max 0 (min 100 r))))
       \<and> (v = PosInf \<longrightarrow> getVolume b (snd (setVolume b v s)) = Some (Num 100))
       \<and> (v = NegInf \<longrightarrow> getVolume b (snd (setVolume b v s)) = Some (Num 0))
       \<and> (\<forall>b' \<in> {''master'', ''music'', ''sfx''}.
             getVolume b' (snd (setVolume b v (snd (setVolume b v s))))
               = getVolume b' (snd (setVolume b v s)))
       \<and> (v \<noteq> NaN \<and> handles_present s \<and> volumes_are_numbers s \<longrightarrow>
             fst (setVolume b v s) = Returned ()
           \<and> fst (setVolume b v (snd (setVolume b v s))) = Returned ())"
proof -
  let ?s' = "snd (setVolume b v s)"
  note st = setVolume_stores [OF assms]
  have clamp: "\<forall>r. v = Num r \<longrightarrow> getVolume b ?s' = Some (Num (max 0 (min 100 r)))"
    by (simp add: st(1))
  have top: "v = PosInf \<longrightarrow> getVolume b ?s' = Some (Num 100)"
    by (simp add: st(1))
  have bottom: "v = NegInf \<longrightarrow> getVolume b ?s' = Some (Num 0)"
    by (simp add: st(1))
  have same: "getVolume b' (snd (setVolume b v ?s')) = getVolume b' ?s'"
    if "b' \<in> {''master'', ''music'', ''sfx''}" for b'
  proof (cases "b' = b")
    case True
    then show ?thesis by (simp add: st(1))
  next
    case False
    with that show ?thesis by (simp add: st(2))
  qed
  have returns: "fst (setVolume b v s) = Returned ()
           \<and> fst (setVolume b v ?s') = Returned ()"
    if "v \<noteq> NaN" and "handles_present s" and "volumes_are_numbers s"
    using setVolume_returns [OF assms that]
          setVolume_returns(1) [OF assms that(1), of ?s']
    by simp
  from clamp top bottom same returns show ?thesis
    by blast
qed

theorem setVolume_getVolume_clamped_witness:
  "''music'' \<in> {''master'', ''music'', ''sfx''}
   \<and> handles_present ready \<and> volumes_are_numbers ready
   \<and> getVolume ''music'' (snd (setVolume ''music'' (Num 150) ready)) = Some (Num 100)
   \<and> getVolume ''music'' (snd (setVolume ''music'' PosInf ready)) = Some (Num 100)
   \<and> getVolume ''music'' (snd (setVolume ''music'' NegInf ready)) = Some (Num 0)
   \<and> getVolume ''music''
        (snd (setVolume ''music'' (Num 150) (snd (setVolume ''music'' (Num 150) ready))))
       = Some (Num 100)
   \<and> fst (setVolume ''music'' (Num 150) ready) = Returned ()
   \<and> fst (setVolume ''music'' (Num 150) (snd (setVolume ''music'' (Num 150) ready)))
       = Returned ()"
proof -
  have b: "''music'' \<in> {''master'', ''music'', ''sfx''}"
    by simp
  have h: "handles_present ready"
    by (simp add: handles_present_def ready_fields)
  have n: "volumes_are_numbers ready"
    by (simp add: volumes_are_numbers_def ready_fields)
  from setVolume_getVolume_clamped [OF b, of "Num 150" ready]
       setVolume_getVolume_clamped [OF b, of PosInf ready]
       setVolume_getVolume_clamped [OF b, of NegInf ready] b h n
  show ?thesis
    by simp
qed

text \<open>
  Claim C2. The gain on the path from a bus to the output is claimed to be the bus volume
  over 100 times the master volume over 100. After \<open>setVolume\<close> of master to 50 and of
  music to 50 on an initialised session, the music bus node carries 0.25 and the master
  node it feeds carries 0.5, so the path from the music bus to the output has gain 0.125
  and not 0.25: \<open>updateVolumes\<close> writes the master factor into both nodes.
\<close>

theorem music_path_gain_master_twice:
  "(let s = snd (setVolume ''music'' (Num 50) (snd (setVolume ''master'' (Num 50) ready)))
    in getVolume ''music'' s = Some (Num 50) \<and> getVolume ''master'' s = Some (Num 50)
     \<and> bus_path_gain s (musicGain s) = Some (1 / 8)
     \<and> bus_path_gain s (musicGain s) \<noteq> Some ((50 / 100) * (50 / 100)))"
  by (simp add: ready_fields setVolume_def updateVolumes_def set_bus_gain_def getVolume_def
      graph_defs Let_def bus_path_gain_def gain_at_def)

text \<open>A volume set before \<open>initialize\<close> is stored but never reaches the bus node:
  \<open>initialize\<close> calls \<open>updateVolumes\<close> while \<open>isInitialized\<close> is still false.\<close>

lemma volume_set_before_initialize_not_applied:
  "(let s = snd (initialize {} False (snd (setVolume ''music'' (Num 50) constructor)))
    in getVolume ''music'' s = Some (Num 50) \<and> getVolume ''master'' s = Some (Num 100)
     \<and> bus_path_gain s (musicGain s) = Some 1)"
  by (simp add: setVolume_def updateVolumes_def set_bus_gain_def getVolume_def constructor_def
      initialize_def initialize_try_def graph_defs Let_def bus_path_gain_def gain_at_def)

text \<open>With a music volume set before \<open>initialize\<close>, a later \<open>setVolume\<close> of the sfx bus
  is what first writes the music bus node: the gain of the music path moves from 1 to 0.5.\<close>

lemma sfx_volume_moves_music_gain:
  "(let s = snd (initialize {} False (snd (setVolume ''music'' (Num 50) constructor)));
        s' = snd (setVolume ''sfx'' (Num 80) s)
    in bus_path_gain s (musicGain s) = Some 1
     \<and> bus_path_gain s' (musicGain s') = Some (1 / 2))"
  by (simp add: setVolume_def updateVolumes_def set_bus_gain_def constructor_def
      initialize_def initialize_try_def graph_defs Let_def bus_path_gain_def gain_at_def)

section \<open>Playback failures\<close>

text \<open>A play that fails for any reason other than a rejected start leaves the set of
  active sources as it was.\<close>

lemma playAudio_failure_keeps_active:
  assumes "Start \<notin> th" and "fst (playAudio th name g opts s) = None"
  shows "activeSources (snd (playAudio th name g opts s)) = activeSources s"
  using assms
  by (auto simp add: playAudio_def playAudio_try_def Let_def graph_defs
        split: option.splits sum.splits if_splits)

lemma playSFX_failure_keeps_active:
  assumes "Start \<notin> th" and "fst (playSFX th name options s) = None"
  shows "activeSources (snd (playSFX th name options s)) = activeSources s"
  using assms by (simp add: playSFX_def Let_def playAudio_failure_keeps_active)

lemma playMusic_failure_keeps_active:
  assumes "Start \<notin> th" and "fst (playMusic th name options s) = Returned None"
  shows "activeSources (snd (playMusic th name options s)) = activeSources s"
proof -
  define ao where "ao =
     \<lparr>ao_loop = (case opt_loop options of None \<Rightarrow> True | Some b \<Rightarrow> b),
      ao_volume = (case opt_volume options of None \<Rightarrow> 1 | Some v \<Rightarrow> v),
      ao_fadeIn = (case opt_fadeIn options of None \<Rightarrow> 0 | Some f \<Rightarrow> f),
      ao_type = Music\<rparr>"
  define s1 where "s1 =
     (if (case opt_stopCurrent options of None \<Rightarrow> True | Some b \<Rightarrow> b) \<and> currentMusic s \<noteq> None
      then stopMusic s else s)"
  obtain r s2 where pa: "playAudio th name (musicGain s1) ao s1 = (r, s2)"
    by (cases "playAudio th name (musicGain s1) ao s1")
  have s1: "activeSources s1 = activeSources s"
    by (simp add: s1_def stopMusic_def)
  have pm: "playMusic th name options s =
      (case r of
         None \<Rightarrow> (Returned None, s2)
       | Some source \<Rightarrow>
           (case audioContext s2 of
              None \<Rightarrow> (Threw TypeError, s2)
            | Some ctx \<Rightarrow>
                (Returned (Some source),
                 s2\<lparr>currentMusic :=
                      Some \<lparr>cm_source = source, cm_name = name,
                            cm_startTime = currentTime ctx,
                            cm_loop = (case opt_loop options of None \<Rightarrow> True | Some b \<Rightarrow> b)\<rparr>,
                    isMusicPaused := False,
                    activeMusicSources := insert source (activeMusicSources s2)\<rparr>)))"
    using pa [unfolded ao_def s1_def] by (simp add: playMusic_def)
  from assms(2) have r: "r = None"
    by (auto simp add: pm split: option.splits)
  with pa assms(1) have "activeSources s2 = activeSources s1"
    using playAudio_failure_keeps_active [of th name "musicGain s1" ao s1] by simp
  with r s1 show ?thesis by (simp add: pm)
qed

text \<open>
  Claim C8. For a name that is not in the buffer registry \<open>playSFX\<close> returns null, and
  the set of active sources, hence the count the snapshot reports, is as before the call.
\<close>

theorem playSFX_unregistered:
  assumes "name \<notin> fst ` set (audioBuffers s)"
  shows "fst (playSFX th name options s) = None
       \<and> activeSources (snd (playSFX th name options s)) = activeSources s
       \<and> st_activeSources (getState (snd (playSFX th name options s)))
           = st_activeSources (getState s)"
proof -
  from assms have "map_of (audioBuffers s) name = None"
    by (simp add: map_of_eq_None_iff)
  then show ?thesis
    by (simp add: playSFX_def playAudio_def getState_def Let_def)
qed

theorem playSFX_unregistered_witness:
  "''jump'' \<notin> fst ` set (audioBuffers ready)
   \<and> fst (playSFX {} ''jump'' no_options ready) = None
   \<and> activeSources (snd (playSFX {} ''jump'' no_options ready)) = activeSources ready
   \<and> st_activeSources (getState (snd (playSFX {} ''jump'' no_options ready)))
       = st_activeSources (getState ready)"
proof -
  have h: "''jump'' \<notin> fst ` set (audioBuffers ready)"
    by (simp add: ready_fields)
  from playSFX_unregistered [OF h, of "{}" no_options] h show ?thesis
    by simp
qed

text \<open>
  Claim C3. A failed play is claimed to leave the set of active sources as it was. When
  the platform rejects \<open>source.start(0)\<close>, \<open>_playAudio\<close> catches the exception and
  returns null, but it has already added the new source to \<open>activeSources\<close> and does not
  take it out again: the set goes from empty to one element.
\<close>

theorem playSFX_start_rejected_leaves_source:
  "fst (playSFX {Start} ''theme'' no_options ready) = None
   \<and> activeSources ready = {}
   \<and> activeSources (snd (playSFX {Start} ''theme'' no_options ready)) = {3}
   \<and> st_activeSources (getState ready) = 0
   \<and> st_activeSources (getState (snd (playSFX {Start} ''theme'' no_options ready))) = 1"
  by (simp add: ready_fields playSFX_def playAudio_def playAudio_try_def getState_def
      no_options_def graph_defs Let_def)

section \<open>Pause and resume\<close>

lemma pause_then_resume_fails:
  assumes "currentMusic s \<noteq> None" and "\<not> isMusicPaused s" and "audioContext s = Some ctx"
  shows "fst (pauseMusic s) = Returned True"
    and "fst (resumeMusic (snd (pauseMusic s))) = Returned False"
    and "currentMusic (snd (resumeMusic (snd (pauseMusic s)))) = None"
    and "isMusicPaused (snd (resumeMusic (snd (pauseMusic s))))"
  using assms by (simp_all add: pauseMusic_def resumeMusic_def stopMusic_def)

text \<open>
  Claim C1. Pausing playing music and resuming at once is claimed to succeed and to keep
  the track name. \<open>pauseMusic\<close> stops the music through \<open>stopMusic\<close>, which clears
  \<open>currentMusic\<close>; \<open>resumeMusic\<close> then finds no current music and returns false. On the
  session playing ''theme'': the pause returns true, the resume returns false, the
  snapshot reports no current track and the session stays paused. The same happens from
  every playing state (\<open>pause_then_resume_fails\<close>).
\<close>

theorem pause_resume_loses_track:
  "st_currentMusic (getState playing) = Some ''theme''
   \<and> \<not> st_isMusicPaused (getState playing)
   \<and> fst (pauseMusic playing) = Returned True
   \<and> fst (resumeMusic (snd (pauseMusic playing))) = Returned False
   \<and> st_currentMusic (getState (snd (resumeMusic (snd (pauseMusic playing))))) = None
   \<and> st_isMusicPaused (getState (snd (resumeMusic (snd (pauseMusic playing)))))"
  using pause_then_resume_fails [of playing]
  by (simp add: getState_def playing_fields)

section \<open>More of the example sessions\<close>

lemma ready_gains_other:
  "n \<noteq> 0 \<Longrightarrow> n \<noteq> 1 \<Longrightarrow> n \<noteq> 2 \<Longrightarrow> gains ready n = None"
  by (simp add: ready_def loadAudio_def initialize_def initialize_try_def constructor_def
        updateVolumes_def graph_defs Let_def)

lemma half_volume_sfx_fields:
  "audioContext half_volume_sfx = Some \<lparr>currentTime = 0, ctx_state = ''running''\<rparr>"
  "masterGain half_volume_sfx = Some 0" "musicGain half_volume_sfx = Some 1"
  "sfxGain half_volume_sfx = Some 2"
  "isInitialized half_volume_sfx = True"
  "activeSources half_volume_sfx = {3}"
  "sources half_volume_sfx 3 =
     Some \<lparr>sn_buffer = \<lparr>buf_duration = 10\<rparr>, sn_loop = False, sn_out = [4],
           sn_offset = Some 0, sn_stopped = False, sn_onended = Some (PlayEnded Sfx)\<rparr>"
  "gains half_volume_sfx 0 = Some \<lparr>gn_events = [], gn_out = [ToDestination]\<rparr>"
  "gains half_volume_sfx 1 = Some \<lparr>gn_events = [], gn_out = [ToNode 0]\<rparr>"
  "gains half_volume_sfx 2 = Some \<lparr>gn_events = [], gn_out = [ToNode 0]\<rparr>"
  "gains half_volume_sfx 4 = Some \<lparr>gn_events = [SetValue (1 / 2) 0], gn_out = [ToNode 2]\<rparr>"
  "gains half_volume_sfx 5 = None"
  "next_id half_volume_sfx = 5" "timers half_volume_sfx = []"
  by (simp_all add: half_volume_sfx_def playSFX_def playAudio_def playAudio_try_def no_options_def
        ready_fields ready_gains_other graph_defs Let_def)

lemma paused_by_hand_fields:
  "audioContext paused_by_hand = Some \<lparr>currentTime = 25, ctx_state = ''running''\<rparr>"
  "musicGain paused_by_hand = Some 1"
  "audioBuffers paused_by_hand = [(''theme'', \<lparr>buf_duration = 10\<rparr>)]"
  "currentMusic paused_by_hand =
     Some \<lparr>cm_source = 3, cm_name = ''theme'', cm_startTime = 0, cm_loop = True\<rparr>"
  "isMusicPaused paused_by_hand = True"
  "musicPauseTime paused_by_hand = 25"
  "next_id paused_by_hand = 5"
  by (simp_all add: paused_by_hand_def pauseMusic_def stopMusic_def playing_fields)

section \<open>Resume offset\<close>

lemma js_rem_nonneg:
  assumes "0 \<le> e" and "0 < D"
  shows "js_rem e D = Some (e - D * of_int \<lfloor>e / D\<rfloor>)"
  using assms by (simp add: js_rem_def js_trunc_def)

text \<open>What \<open>resumeMusic\<close> computes if it finds the paused session's track still recorded:
  the source it creates becomes the current one and is started at \<open>e mod D\<close>, that is
  \<open>e - D * \<lfloor>e / D\<rfloor>\<close>, if the track loops, and at \<open>e\<close> itself if it does not, for the
  buffer duration \<open>D\<close> and the elapsed time \<open>e\<close>. No state a session can get into has the
  track recorded while paused (\<open>reachable_paused_without_track\<close>), so the example below is
  the hand-made \<open>paused_by_hand\<close>.\<close>

lemma resumeMusic_offset_if_slot_kept:
  assumes cur: "currentMusic s = Some cm"
      and paused: "isMusicPaused s"
      and buf: "map_of (audioBuffers s) (cm_name cm) = Some buffer"
      and dur: "0 < buf_duration buffer"
      and elapsed: "cm_startTime cm \<le> musicPauseTime s"
      and ok: "fst (resumeMusic s) = Returned True"
  shows "\<exists>x. sources (snd (resumeMusic s)) (next_id s) = Some x
            \<and> map_option cm_source (currentMusic (snd (resumeMusic s))) = Some (next_id s)
            \<and> sn_offset x =
                Some (if cm_loop cm
                      then (musicPauseTime s - cm_startTime cm)
                             - buf_duration buffer
                               * of_int \<lfloor>(musicPauseTime s - cm_startTime cm) / buf_duration buffer\<rfloor>
                      else musicPauseTime s - cm_startTime cm)"
proof -
  let ?e = "musicPauseTime s - cm_startTime cm"
  from elapsed have e: "0 \<le> ?e" by simp
  obtain ctx where ctx: "audioContext s = Some ctx"
    using ok cur paused buf by (cases "audioContext s") (simp_all add: resumeMusic_def)
  obtain bus where bus: "musicGain s = Some bus"
    using ok cur paused buf ctx by (cases "musicGain s") (simp_all add: resumeMusic_def Let_def)
  show ?thesis
    using cur paused buf ctx bus js_rem_nonneg [OF e dur]
    by (simp add: resumeMusic_def Let_def graph_defs)
qed

lemma resumeMusic_offset_on_paused_by_hand:
  "currentMusic paused_by_hand =
     Some \<lparr>cm_source = 3, cm_name = ''theme'', cm_startTime = 0, cm_loop = True\<rparr>
   \<and> isMusicPaused paused_by_hand
   \<and> map_of (audioBuffers paused_by_hand) ''theme'' = Some \<lparr>buf_duration = 10\<rparr>
   \<and> cm_startTime \<lparr>cm_source = 3, cm_name = ''theme'', cm_startTime = 0, cm_loop = True\<rparr>
        \<le> musicPauseTime paused_by_hand
   \<and> fst (resumeMusic paused_by_hand) = Returned True
   \<and> (\<exists>x. sources (snd (resumeMusic paused_by_hand)) 5 = Some x \<and> sn_offset x = Some 5)"
proof -
  let ?cm = "\<lparr>cm_source = 3, cm_name = ''theme'', cm_startTime = 0, cm_loop = True\<rparr>"
  let ?buf = "\<lparr>buf_duration = 10\<rparr>"
  note h1 = paused_by_hand_fields(4)
  have h2: "isMusicPaused paused_by_hand"
    by (simp add: paused_by_hand_fields)
  have h3: "map_of (audioBuffers paused_by_hand) (cm_name ?cm) = Some ?buf"
    by (simp add: paused_by_hand_fields)
  have h4: "0 < buf_duration ?buf"
    by simp
  have h5: "cm_startTime ?cm \<le> musicPauseTime paused_by_hand"
    by (simp add: paused_by_hand_fields)
  have h6: "fst (resumeMusic paused_by_hand) = Returned True"
    by (simp add: resumeMusic_def paused_by_hand_fields js_rem_def js_trunc_def Let_def)
  from resumeMusic_offset_if_slot_kept [OF h1 h2 h3 h4 h5 h6] h1 h2 h3 h5 h6 show ?thesis
    by (auto simp add: paused_by_hand_fields)
qed

text \<open>
  Claim C7. A looping track of duration 10, paused 25 seconds after its start, is claimed
  to resume at offset 25 mod 10 = 5. On the session playing ''theme'', \<open>pauseMusic\<close> at
  host time 25 returns true and records the pause time 25, but it has cleared
  \<open>currentMusic\<close>; \<open>resumeMusic\<close> returns false and changes nothing: no source is
  created, none is started at any offset, and no music source is active.
\<close>

theorem pause_resume_starts_no_instance:
  "(let s0 = advance 22 playing;
        s1 = snd (pauseMusic s0)
    in currentMusic s0
         = Some \<lparr>cm_source = 3, cm_name = ''theme'', cm_startTime = 0, cm_loop = True\<rparr>
     \<and> map_of (audioBuffers s0) ''theme'' = Some \<lparr>buf_duration = 10\<rparr>
     \<and> fst (pauseMusic s0) = Returned True
     \<and> isMusicPaused s1 \<and> musicPauseTime s1 = 25
     \<and> resumeMusic s1 = (Returned False, s1)
     \<and> next_id s1 = 5 \<and> sources s1 5 = None
     \<and> activeMusicSources (snd (resumeMusic s1)) = {})"
  by (simp add: pauseMusic_def resumeMusic_def stopMusic_def stop_each_def playing_fields Let_def)

section \<open>Fade-out\<close>

lemma fadeOut_effect:
  assumes "isInitialized s" and "audioContext s = Some ctx" and "musicGain s = Some bus"
      and "sources s src = Some x"
  shows "sources (fadeOut {} (Some src) (Some d) s) src = Some (x\<lparr>sn_out := [next_id s]\<rparr>)"
    and "gains (fadeOut {} (Some src) (Some d) s) (next_id s) = Some (fade_stage (currentTime ctx) d bus)"
    and "n \<noteq> next_id s \<Longrightarrow> gains (fadeOut {} (Some src) (Some d) s) n = gains s n"
    and "timers (fadeOut {} (Some src) (Some d) s) = timers s @ [(d * 1000, src)]"
    and "masterGain (fadeOut {} (Some src) (Some d) s) = masterGain s"
    and "musicGain (fadeOut {} (Some src) (Some d) s) = musicGain s"
  using assms
  by (simp_all add: fadeOut_def fadeOut_try_def Let_def graph_defs fade_stage_def)

lemma fade_stage_ramp:
  "gain_at (fade_stage now d bus) t =
     (if t < now then 1 else if t < now + d then 1 - (t - now) / d else 0)"
  by (auto simp add: gain_at_def fade_stage_def field_simps)

text \<open>
  Claim C4, as stated, at a concrete instance. A sound effect playing at volume one half
  has path gain 0.5. Right after \<open>fadeOut\<close> over 2 seconds its path gain at the time of
  the call is 1, and halfway through the fade it is 0.5: the ramp starts at 1, not at
  the gain the instance had.
\<close>

theorem fadeOut_starts_at_one:
  "source_path_gain half_volume_sfx 3 0 = Some (1 / 2)
   \<and> source_path_gain (fadeOut {} (Some 3) (Some 2) half_volume_sfx) 3 0 = Some 1
   \<and> source_path_gain (fadeOut {} (Some 3) (Some 2) half_volume_sfx) 3 1 = Some (1 / 2)"
proof -
  have init: "isInitialized half_volume_sfx"
    by (simp add: half_volume_sfx_fields)
  note f = fadeOut_effect [OF init half_volume_sfx_fields(1)
             half_volume_sfx_fields(3) half_volume_sfx_fields(7), where d = 2]
  have before: "source_path_gain half_volume_sfx 3 0 = Some (1 / 2)"
    by (simp add: source_path_gain_def half_volume_sfx_fields gain_at_def)
  have after: "source_path_gain (fadeOut {} (Some 3) (Some 2) half_volume_sfx) 3 t
                 = Some (gain_at (fade_stage 0 2 1) t)" for t
    using f(1,2) f(3) [where n = 1] f(3) [where n = 0]
    by (simp add: source_path_gain_def half_volume_sfx_fields gain_at_def fade_stage_def)
  from before after [of 0] after [of 1] show ?thesis
    by (simp add: fade_stage_ramp)
qed

text \<open>
  Claim C4, amended. On an initialised engine whose platform raises nothing,
  \<open>fadeOut(instance, d)\<close> routes the instance through a new gain stage whose gain, from
  the time of the call, is \<open>1 - (t - now) / d\<close> until \<open>now + d\<close> and 0 from then on,
  whatever gain the instance had, and it sets a timer that stops the instance
  \<open>d * 1000\<close> milliseconds after the call.
\<close>

theorem fadeOut_ramp_and_stop:
  assumes "isInitialized s" and "audioContext s = Some ctx" and "musicGain s = Some bus"
      and "sources s src = Some x"
  shows "\<exists>g y. gains (fadeOut {} (Some src) (Some d) s) (next_id s) = Some g
          \<and> sources (fadeOut {} (Some src) (Some d) s) src = Some y
          \<and> sn_out y = [next_id s]
          \<and> (\<forall>t. currentTime ctx \<le> t \<and> t < currentTime ctx + d
                 \<longrightarrow> gain_at g t = 1 - (t - currentTime ctx) / d)
          \<and> (\<forall>t. currentTime ctx \<le> t \<and> currentTime ctx + d \<le> t \<longrightarrow> gain_at g t = 0)
          \<and> timers (fadeOut {} (Some src) (Some d) s) = timers s @ [(d * 1000, src)]"
proof -
  note f = fadeOut_effect [OF assms, where d = d]
  let ?g = "fade_stage (currentTime ctx) d bus"
  have ramp: "\<forall>t. currentTime ctx \<le> t \<and> t < currentTime ctx + d
                 \<longrightarrow> gain_at ?g t = 1 - (t - currentTime ctx) / d"
    by (simp add: fade_stage_ramp)
  have flat: "\<forall>t. currentTime ctx \<le> t \<and> currentTime ctx + d \<le> t \<longrightarrow> gain_at ?g t = 0"
    by (simp add: fade_stage_ramp)
  from f(1,2,4) ramp flat show ?thesis
    by simp
qed

theorem fadeOut_ramp_and_stop_witness:
  "isInitialized half_volume_sfx
   \<and> audioContext half_volume_sfx = Some \<lparr>currentTime = 0, ctx_state = ''running''\<rparr>
   \<and> musicGain half_volume_sfx = Some 1
   \<and> sources half_volume_sfx 3 \<noteq> None
   \<and> (\<exists>g y. gains (fadeOut {} (Some 3) (Some 2) half_volume_sfx) 5 = Some g
          \<and> sources (fadeOut {} (Some 3) (Some 2) half_volume_sfx) 3 = Some y
          \<and> sn_out y = [5]
          \<and> (\<forall>t. 0 \<le> t \<and> t < 2 \<longrightarrow> gain_at g t = 1 - t / 2)
          \<and> (\<forall>t. 0 \<le> t \<and> 2 \<le> t \<longrightarrow> gain_at g t = 0)
          \<and> timers (fadeOut {} (Some 3) (Some 2) half_volume_sfx) = [(2000, 3)])"
proof -
  have h1: "isInitialized half_volume_sfx"
    by (simp add: half_volume_sfx_fields)
  note h2 = half_volume_sfx_fields(1)
  note h3 = half_volume_sfx_fields(3)
  note h4 = half_volume_sfx_fields(7)
  from fadeOut_ramp_and_stop [OF h1 h2 h3 h4, where d = 2] h1 h2 h3 h4 show ?thesis
    by (simp add: half_volume_sfx_fields)
qed



section \<open>Transition\<close>

lemma playMusic_no_stop_keeps:
  assumes "opt_stopCurrent options = Some False"
  shows "activeMusicSources s \<subseteq> activeMusicSources (snd (playMusic th name options s))"
    and "fst (playMusic th name options s) = Returned (Some new) \<Longrightarrow>
           new \<in> activeMusicSources (snd (playMusic th name options s))"
proof -
  define ao where "ao =
     \<lparr>ao_loop = (case opt_loop options of None \<Rightarrow> True | Some b \<Rightarrow> b),
      ao_volume = (case opt_volume options of None \<Rightarrow> 1 | Some v \<Rightarrow> v),
      ao_fadeIn = (case opt_fadeIn options of None \<Rightarrow> 0 | Some f \<Rightarrow> f),
      ao_type = Music\<rparr>"
  obtain r s2 where pa: "playAudio th name (musicGain s) ao s = (r, s2)"
    by (cases "playAudio th name (musicGain s) ao s")
  have keep: "activeMusicSources s2 = activeMusicSources s"
    using playAudio_keeps(8) [where th = th and name = name and g = "musicGain s"
            and opts = ao and s = s] pa by simp
  have pm: "playMusic th name options s =
      (case r of
         None \<Rightarrow> (Returned None, s2)
       | Some source \<Rightarrow>
           (case audioContext s2 of
              None \<Rightarrow> (Threw TypeError, s2)
            | Some ctx \<Rightarrow>
                (Returned (Some source),
                 s2\<lparr>currentMusic :=
                      Some \<lparr>cm_source = source, cm_name = name,
                            cm_startTime = currentTime ctx,
                            cm_loop = (case opt_loop options of None \<Rightarrow> True | Some b \<Rightarrow> b)\<rparr>,
                    isMusicPaused := False,
                    activeMusicSources := insert source (activeMusicSources s2)\<rparr>)))"
    using assms pa [unfolded ao_def] by (simp add: playMusic_def ao_def)
  show "activeMusicSources s \<subseteq> activeMusicSources (snd (playMusic th name options s))"
    using keep by (auto simp add: pm split: option.splits)
  show "new \<in> activeMusicSources (snd (playMusic th name options s))"
    if "fst (playMusic th name options s) = Returned (Some new)"
    using that by (auto simp add: pm split: option.splits)
qed

text \<open>
  Claim C5. \<open>transitionMusic\<close> on a name that is not registered returns false and
  changes nothing but the notification log. On a registered name it is \<open>playMusic\<close> with
  \<open>fadeIn\<close> set to the transition time and \<open>stopCurrent\<close> false, followed by
  \<open>fadeOut\<close> over the same time on the source that was current before the play call;
  every music source that was active before is still active afterwards, together with the
  new one.
\<close>

theorem transitionMusic_steps:
  "(newTrackName \<notin> fst ` set (audioBuffers s) \<longrightarrow>
      transitionMusic th_play th_fade newTrackName (Some t) options s
        = (Returned False, alert_user (TrackNotLoaded newTrackName) s))
   \<and> (newTrackName \<in> fst ` set (audioBuffers s) \<longrightarrow>
      transitionMusic th_play th_fade newTrackName (Some t) options s
        = (case playMusic th_play newTrackName
                  (options\<lparr>opt_fadeIn := Some t,
                           opt_volume := Some (case opt_volume options of
                                                 None \<Rightarrow> 1 | Some v \<Rightarrow> if v = 0 then 1 else v),
                           opt_stopCurrent := Some False\<rparr>) s of
             (Threw e, s1) \<Rightarrow> (Threw e, s1)
           | (Returned newSource, s1) \<Rightarrow>
               (Returned True,
                case currentMusic s of
                  None \<Rightarrow> s1
                | Some cm \<Rightarrow> fadeOut th_fade (Some (cm_source cm)) (Some t) s1))
      \<and> activeMusicSources s
           \<subseteq> activeMusicSources
               (snd (transitionMusic th_play th_fade newTrackName (Some t) options s))
      \<and> (\<forall>new. fst (playMusic th_play newTrackName
                  (options\<lparr>opt_fadeIn := Some t,
                           opt_volume := Some (case opt_volume options of
                                                 None \<Rightarrow> 1 | Some v \<Rightarrow> if v = 0 then 1 else v),
                           opt_stopCurrent := Some False\<rparr>) s) = Returned (Some new)
            \<longrightarrow> new \<in> activeMusicSources
                   (snd (transitionMusic th_play th_fade newTrackName (Some t) options s))))"
proof -
  let ?opts = "options\<lparr>opt_fadeIn := Some t,
                       opt_volume := Some (case opt_volume options of
                                             None \<Rightarrow> 1 | Some v \<Rightarrow> if v = 0 then 1 else v),
                       opt_stopCurrent := Some False\<rparr>"
  let ?tm = "transitionMusic th_play th_fade newTrackName (Some t) options s"
  have unreg: "?tm = (Returned False, alert_user (TrackNotLoaded newTrackName) s)"
    if "newTrackName \<notin> fst ` set (audioBuffers s)"
    using that by (simp add: transitionMusic_def)
  have reg: "?tm
        = (case playMusic th_play newTrackName ?opts s of
             (Threw e, s1) \<Rightarrow> (Threw e, s1)
           | (Returned newSource, s1) \<Rightarrow>
               (Returned True,
                case currentMusic s of
                  None \<Rightarrow> s1
                | Some cm \<Rightarrow> fadeOut th_fade (Some (cm_source cm)) (Some t) s1))"
    if "newTrackName \<in> fst ` set (audioBuffers s)"
    using that by (simp add: transitionMusic_def split: option.splits prod.splits outcome.splits)
  have keep: "activeMusicSources s
                \<subseteq> activeMusicSources (snd (playMusic th_play newTrackName ?opts s))"
    by (rule playMusic_no_stop_keeps(1)) simp
  have same: "activeMusicSources (snd ?tm)
                = activeMusicSources (snd (playMusic th_play newTrackName ?opts s))"
    if "newTrackName \<in> fst ` set (audioBuffers s)"
    by (simp add: reg [OF that] fadeOut_keeps
          split: prod.splits outcome.splits option.splits)
  have old: "activeMusicSources s \<subseteq> activeMusicSources (snd ?tm)"
    if "newTrackName \<in> fst ` set (audioBuffers s)"
    using keep same [OF that] by simp
  have new: "\<forall>new. fst (playMusic th_play newTrackName ?opts s) = Returned (Some new)
               \<longrightarrow> new \<in> activeMusicSources (snd ?tm)"
    if "newTrackName \<in> fst ` set (audioBuffers s)"
    using playMusic_no_stop_keeps(2) [of ?opts th_play newTrackName s] same [OF that]
    by simp
  from unreg reg old new show ?thesis
    by blast
qed

theorem transitionMusic_steps_witness:
  "''battle'' \<notin> fst ` set (audioBuffers ready)
   \<and> transitionMusic {} {} ''battle'' (Some 2) no_options ready
       = (Returned False, alert_user (TrackNotLoaded ''battle'') ready)
   \<and> ''theme'' \<in> fst ` set (audioBuffers playing)
   \<and> fst (playMusic {} ''theme''
             (no_options\<lparr>opt_fadeIn := Some 2, opt_volume := Some 1,
                         opt_stopCurrent := Some False\<rparr>) playing) = Returned (Some 5)
   \<and> fst (transitionMusic {} {} ''theme'' (Some 2) no_options playing) = Returned True
   \<and> 3 \<in> activeMusicSources (snd (transitionMusic {} {} ''theme'' (Some 2) no_options playing))
   \<and> 5 \<in> activeMusicSources (snd (transitionMusic {} {} ''theme'' (Some 2) no_options playing))"
proof -
  let ?opts = "no_options\<lparr>opt_fadeIn := Some 2, opt_volume := Some 1,
                          opt_stopCurrent := Some False\<rparr>"
  have h1: "''battle'' \<notin> fst ` set (audioBuffers ready)"
    by (simp add: ready_fields)
  have h2: "''theme'' \<in> fst ` set (audioBuffers playing)"
    by (simp add: playing_fields)
  have v: "(case opt_volume no_options of None \<Rightarrow> 1 | Some v \<Rightarrow> if v = 0 then 1 else v) = (1::real)"
    by (simp add: no_options_def)
  have h3: "fst (playMusic {} ''theme'' ?opts playing) = Returned (Some 5)"
    by (simp add: playMusic_def playAudio_def playAudio_try_def no_options_def
          playing_fields graph_defs Let_def)
  have h4: "3 \<in> activeMusicSources playing"
    by (simp add: playing_fields)
  note t1 = transitionMusic_steps [of "''battle''" ready "{}" "{}" 2 no_options]
  note t2 = transitionMusic_steps [of "''theme''" playing "{}" "{}" 2 no_options, unfolded v]
  from t1 h1 have a: "transitionMusic {} {} ''battle'' (Some 2) no_options ready
       = (Returned False, alert_user (TrackNotLoaded ''battle'') ready)"
    by blast
  from t2 h2 have b: "transitionMusic {} {} ''theme'' (Some 2) no_options playing
        = (case playMusic {} ''theme'' ?opts playing of
             (Threw e, s1) \<Rightarrow> (Threw e, s1)
           | (Returned newSource, s1) \<Rightarrow>
               (Returned True,
                case currentMusic playing of
                  None \<Rightarrow> s1
                | Some cm \<Rightarrow> fadeOut {} (Some (cm_source cm)) (Some 2) s1))"
    by blast
  from t2 h2 h4 have c:
    "3 \<in> activeMusicSources (snd (transitionMusic {} {} ''theme'' (Some 2) no_options playing))"
    by blast
  from t2 h2 h3 have d:
    "5 \<in> activeMusicSources (snd (transitionMusic {} {} ''theme'' (Some 2) no_options playing))"
    by blast
  have e: "fst (transitionMusic {} {} ''theme'' (Some 2) no_options playing) = Returned True"
  proof (cases "playMusic {} ''theme'' ?opts playing")
    case (Pair r s1)
    with h3 show ?thesis by (simp add: b)
  qed
  from h1 a h2 h3 e c d show ?thesis
    by blast
qed

end
